theory Spec2Isabelle
  imports Complex_Main "HOL-Library.Sublist"
begin

section \<open>Python values shared by both processors\<close>

text \<open>
  Text is a list of 8-bit characters and is read as ASCII: the character classes
  below are the ASCII part of Python's Unicode classes. \<open>math.pi\<close> is \<^term>\<open>pi\<close>.
  The numbers of the sketch processor are the finite measurements of \<open>cv2\<close> and
  are exact reals; the numbers of the text processor come out of the text, can be of
  any size, and are Python floats as modelled next.
\<close>

subsection \<open>Python floats\<close>

text \<open>
  A float is a finite value, one of the two infinities, or \<open>nan\<close>. Rounding inside
  the range of a double is left out, the rounding of a tiny result to zero included:
  a finite float is taken as the exact real. Leaving the range is kept: a result
  whose magnitude reaches \<open>2\<^sup>1\<^sup>0\<^sup>2\<^sup>4 - 2\<^sup>9\<^sup>7\<^sup>0\<close> (the largest double plus half a unit in
  its last place) is an infinity, and the operations on infinities and \<open>nan\<close>
  are those of IEEE 754.
\<close>

datatype pyfloat = Fin real | PInf | NInf | NaN

definition overflow_bound :: real where
  "overflow_bound = 2 ^ 1024 - 2 ^ 970"

definition rnd :: "real \<Rightarrow> pyfloat" where
  "rnd x = (if overflow_bound \<le> x then PInf
            else if x \<le> - overflow_bound then NInf
            else Fin x)"

text \<open>The sign of a float that is not \<open>nan\<close>: -1, 0 or 1.\<close>

fun fsign :: "pyfloat \<Rightarrow> int" where
  "fsign (Fin a) = (if a < 0 then - 1 else if a = 0 then 0 else 1)"
| "fsign PInf = 1"
| "fsign NInf = - 1"
| "fsign NaN = 0"

text \<open>
  \<open>x * y\<close>: \<open>nan\<close> if an operand is \<open>nan\<close> or if an infinity meets zero; an
  infinity of the product's sign if an operand is infinite; the rounded product
  otherwise.
\<close>

definition fmul :: "pyfloat \<Rightarrow> pyfloat \<Rightarrow> pyfloat" where
  "fmul x y =
     (case (x, y) of
        (NaN, _) \<Rightarrow> NaN
      | (_, NaN) \<Rightarrow> NaN
      | (Fin a, Fin b) \<Rightarrow> rnd (a * b)
      | _ \<Rightarrow> (let s = fsign x * fsign y
              in if s = 0 then NaN else if 0 < s then PInf else NInf))"

text \<open>\<open>x + y\<close>: \<open>nan\<close> if an operand is \<open>nan\<close> or the infinities are opposite.\<close>

definition fadd :: "pyfloat \<Rightarrow> pyfloat \<Rightarrow> pyfloat" where
  "fadd x y =
     (case (x, y) of
        (NaN, _) \<Rightarrow> NaN
      | (_, NaN) \<Rightarrow> NaN
      | (Fin a, Fin b) \<Rightarrow> rnd (a + b)
      | (PInf, NInf) \<Rightarrow> NaN
      | (NInf, PInf) \<Rightarrow> NaN
      | (PInf, _) \<Rightarrow> PInf
      | (_, PInf) \<Rightarrow> PInf
      | _ \<Rightarrow> NInf)"

text \<open>\<open>x / d\<close> for a positive finite constant \<open>d\<close> (the processor only halves).\<close>

definition fdiv_by :: "pyfloat \<Rightarrow> real \<Rightarrow> pyfloat" where
  "fdiv_by x d = (case x of Fin a \<Rightarrow> rnd (a / d) | _ \<Rightarrow> x)"

text \<open>
  \<open>math.sqrt(x)\<close>. On a negative number or the negative infinity the library raises
  ValueError, which is written \<open>NaN\<close> here: the one call of the processor has a sum
  of two squares as its argument, which is never negative (lemma
  \<open>sum_of_squares_not_negative\<close>).
\<close>

definition fsqrt :: "pyfloat \<Rightarrow> pyfloat" where
  "fsqrt x =
     (case x of
        Fin a \<Rightarrow> if 0 \<le> a then Fin (sqrt a) else NaN
      | PInf \<Rightarrow> PInf
      | _ \<Rightarrow> NaN)"

text \<open>\<open>x < y\<close>, false whenever an operand is \<open>nan\<close>\<close>

definition fless :: "pyfloat \<Rightarrow> pyfloat \<Rightarrow> bool" where
  "fless x y =
     (case (x, y) of
        (NaN, _) \<Rightarrow> False
      | (_, NaN) \<Rightarrow> False
      | (Fin a, Fin b) \<Rightarrow> a < b
      | (NInf, NInf) \<Rightarrow> False
      | (NInf, _) \<Rightarrow> True
      | (PInf, _) \<Rightarrow> False
      | (_, PInf) \<Rightarrow> True
      | (_, NInf) \<Rightarrow> False)"

text \<open>\<open>max(x, y)\<close>: the first argument unless the second is greater.\<close>

definition fmax :: "pyfloat \<Rightarrow> pyfloat \<Rightarrow> pyfloat" where
  "fmax x y = (if fless x y then y else x)"

subsection \<open>Errors, contours, dictionaries\<close>

datatype error =
    ValueError string
  | KeyError string
  | TypeError string
  | ZeroDivisionError
  | TextProcessingFailed error
  | SketchProcessingFailed error

text \<open>What \<open>cv2\<close> measures on one contour; the library calls are inputs of the model.\<close>

record contour =
  contourArea :: real
  arcLength :: real
  boundingRect :: "int \<times> int \<times> int \<times> int"
  minEnclosingCircle :: "(real \<times> real) \<times> real"
  approx_len :: nat

text \<open>
  A value in a shape record. A number is \<open>Num\<close> when it is finite; \<open>PosInf\<close>,
  \<open>NegInf\<close> and \<open>NotANumber\<close> are the three floats that are not.
\<close>

datatype val =
    Str string
  | Num real
  | PosInf
  | NegInf
  | NotANumber
  | Pt real real
  | Flag bool
  | Contour contour
  | Approx nat

text \<open>A float as a record value.\<close>

fun num :: "pyfloat \<Rightarrow> val" where
  "num (Fin a) = Num a"
| "num PInf = PosInf"
| "num NInf = NegInf"
| "num NaN = NotANumber"

type_synonym 'v dict = "(string \<times> 'v) list"

text \<open>\<open>d[k] = v\<close>: an existing key keeps its place, a new key goes last.\<close>

fun dict_set :: "string \<Rightarrow> 'v \<Rightarrow> 'v dict \<Rightarrow> 'v dict" where
  "dict_set k v [] = [(k, v)]"
| "dict_set k v ((k', v') # d) =
     (if k' = k then (k, v) # d else (k', v') # dict_set k v d)"

text \<open>\<open>d.update(other)\<close>\<close>

fun dict_update :: "'v dict \<Rightarrow> 'v dict \<Rightarrow> 'v dict" where
  "dict_update d [] = d"
| "dict_update d ((k, v) # other) = dict_update (dict_set k v d) other"

definition dict_get :: "'v dict \<Rightarrow> string \<Rightarrow> 'v \<Rightarrow> 'v" where
  "dict_get d k dflt = (case map_of d k of Some v \<Rightarrow> v | None \<Rightarrow> dflt)"

definition has_key :: "string \<Rightarrow> 'v dict \<Rightarrow> bool" where
  "has_key k d = (map_of d k \<noteq> None)"

section \<open>Strings and regular expressions\<close>

definition ascii_upper :: string where
  "ascii_upper = ''ABCDEFGHIJKLMNOPQRSTUVWXYZ''"

definition ascii_lower :: string where
  "ascii_lower = ''abcdefghijklmnopqrstuvwxyz''"

definition digits :: string where
  "digits = ''0123456789''"

definition lower_char :: "char \<Rightarrow> char" where
  "lower_char c = (case map_of (zip ascii_upper ascii_lower) c of Some l \<Rightarrow> l | None \<Rightarrow> c)"

text \<open>\<open>str.lower()\<close>\<close>

definition lower :: "string \<Rightarrow> string" where
  "lower s = map lower_char s"

definition is_digit :: "char \<Rightarrow> bool" where
  "is_digit c = (c \<in> set digits)"

definition is_alpha :: "char \<Rightarrow> bool" where
  "is_alpha c = (c \<in> set ascii_lower \<or> c \<in> set ascii_upper)"

text \<open>\<open>\w\<close>\<close>

definition is_word :: "char \<Rightarrow> bool" where
  "is_word c = (is_alpha c \<or> is_digit c \<or> c = CHR ''_'')"

text \<open>\<open>\s\<close> and \<open>str.isspace\<close>: tab, newline, VT, FF, CR, FS, GS, RS, US, space.\<close>

definition is_space :: "char \<Rightarrow> bool" where
  "is_space c = (c \<in> set [CHR 0x09, CHR 0x0A, CHR 0x0B, CHR 0x0C, CHR 0x0D,
                            CHR 0x1C, CHR 0x1D, CHR 0x1E, CHR 0x1F, CHR '' ''])"

text \<open>\<open>sub in s\<close>\<close>

fun contains :: "string \<Rightarrow> string \<Rightarrow> bool" where
  "contains sub [] = (sub = [])"
| "contains sub (c # cs) = (prefix sub (c # cs) \<or> contains sub cs)"

text \<open>\<open>str.strip()\<close>\<close>

definition strip :: "string \<Rightarrow> string" where
  "strip s = rev (dropWhile is_space (rev (dropWhile is_space s)))"

text \<open>
  The fragment of \<open>re\<close> syntax that the two processors use. Quantifiers are greedy
  and apply to one character class, as in every pattern of the source; \<open>Grp n\<close> is
  the \<open>n\<close>-th capturing group, \<open>(?:...)\<close> is plain sequencing.
\<close>

datatype cclass = Space | Digit | Alpha | AnyOf string

datatype regex =
    Lit string
  | One cclass
  | Star cclass
  | Plus cclass
  | Seq regex regex
  | Alt regex regex
  | Opt regex
  | Grp nat regex
  | WordB

fun in_class :: "cclass \<Rightarrow> char \<Rightarrow> bool" where
  "in_class Space c = is_space c"
| "in_class Digit c = is_digit c"
| "in_class Alpha c = is_alpha c"
| "in_class (AnyOf s) c = (c \<in> set s)"

text \<open>
  A position in the text: the characters before it (nearest first), the characters
  from it on, and the groups captured so far (latest first).
\<close>

type_synonym mstate = "string \<times> string \<times> (nat \<times> string) list"

text \<open>\<open>\b\<close>: exactly one of the two neighbours is a word character.\<close>

fun word_boundary :: "string \<Rightarrow> string \<Rightarrow> bool" where
  "word_boundary bef rest =
     ((case bef of [] \<Rightarrow> False | b # _ \<Rightarrow> is_word b)
        \<noteq> (case rest of [] \<Rightarrow> False | r # _ \<Rightarrow> is_word r))"

text \<open>All ways of reading zero or more characters of a class, longest first.\<close>

fun star_ends :: "cclass \<Rightarrow> string \<Rightarrow> string \<Rightarrow> (string \<times> string) list" where
  "star_ends cl bef [] = [(bef, [])]"
| "star_ends cl bef (c # cs) =
     (if in_class cl c then star_ends cl (c # bef) cs else []) @ [(bef, c # cs)]"

text \<open>
  The backtracking matcher: every way of matching the expression at a position, in
  the order in which \<open>re\<close> tries them, so that the head is the match \<open>re\<close> reports.
\<close>

primrec ms :: "regex \<Rightarrow> mstate \<Rightarrow> mstate list" where
  "ms (Lit w) st =
     (case st of (bef, rest, g) \<Rightarrow>
        if prefix w rest then [(rev w @ bef, drop (length w) rest, g)] else [])"
| "ms (One cl) st =
     (case st of (bef, rest, g) \<Rightarrow>
        (case rest of [] \<Rightarrow> []
         | c # cs \<Rightarrow> if in_class cl c then [(c # bef, cs, g)] else []))"
| "ms (Star cl) st =
     (case st of (bef, rest, g) \<Rightarrow> map (\<lambda>(b, r). (b, r, g)) (star_ends cl bef rest))"
| "ms (Plus cl) st =
     (case st of (bef, rest, g) \<Rightarrow>
        (case rest of [] \<Rightarrow> []
         | c # cs \<Rightarrow> if in_class cl c
                     then map (\<lambda>(b, r). (b, r, g)) (star_ends cl (c # bef) cs) else []))"
| "ms (Seq a b) st = concat (map (ms b) (ms a st))"
| "ms (Alt a b) st = ms a st @ ms b st"
| "ms (Opt a) st = ms a st @ [st]"
| "ms (Grp n a) st =
     (case st of (bef, rest, g) \<Rightarrow>
        map (\<lambda>(b, r, g'). (b, r, (n, take (length rest - length r) rest) # g')) (ms a st))"
| "ms WordB st =
     (case st of (bef, rest, g) \<Rightarrow> if word_boundary bef rest then [st] else [])"

text \<open>The match at one position: how many characters it spans and its groups.\<close>

definition match_at :: "regex \<Rightarrow> string \<Rightarrow> string \<Rightarrow> (nat \<times> (nat \<times> string) list) option" where
  "match_at r bef rest =
     (case ms r (bef, rest, []) of
        [] \<Rightarrow> None
      | (b, r', g) # _ \<Rightarrow> Some (length rest - length r', g))"

text \<open>The text of group \<open>n\<close>, empty when the group took no part in the match.\<close>

definition group :: "(nat \<times> string) list \<Rightarrow> nat \<Rightarrow> string" where
  "group g n = (case map_of g n of Some s \<Rightarrow> s | None \<Rightarrow> [])"

text \<open>
  \<open>re.findall\<close> for a pattern whose groups are numbered \<open>ks\<close>: the
  non-overlapping matches from left to right, each as the list of its groups. \<open>skip\<close> counts the characters
  still covered by the previous match. No pattern of the source matches the empty
  string; an empty match is passed over.
\<close>

fun findall_from :: "regex \<Rightarrow> nat list \<Rightarrow> nat \<Rightarrow> string \<Rightarrow> string \<Rightarrow> string list list" where
  "findall_from r ks skip bef [] = []"
| "findall_from r ks skip bef (c # cs) =
     (if 0 < skip then findall_from r ks (skip - 1) (c # bef) cs
      else (case match_at r bef (c # cs) of
              None \<Rightarrow> findall_from r ks 0 (c # bef) cs
            | Some (n, g) \<Rightarrow>
                if n = 0 then findall_from r ks 0 (c # bef) cs
                else map (group g) ks # findall_from r ks (n - 1) (c # bef) cs))"

definition findall :: "regex \<Rightarrow> nat list \<Rightarrow> string \<Rightarrow> string list list" where
  "findall r ks s = findall_from r ks 0 [] s"

text \<open>\<open>re.search(...)\<close> used as a truth value\<close>

fun search_from :: "regex \<Rightarrow> string \<Rightarrow> string \<Rightarrow> bool" where
  "search_from r bef [] = (match_at r bef [] \<noteq> None)"
| "search_from r bef (c # cs) =
     (match_at r bef (c # cs) \<noteq> None \<or> search_from r (c # bef) cs)"

definition search :: "regex \<Rightarrow> string \<Rightarrow> bool" where
  "search r s = search_from r [] s"

text \<open>\<open>re.sub(pattern, repl, s)\<close> with a replacement free of group references\<close>

fun sub_from :: "regex \<Rightarrow> string \<Rightarrow> nat \<Rightarrow> string \<Rightarrow> string \<Rightarrow> string" where
  "sub_from r repl skip bef [] = []"
| "sub_from r repl skip bef (c # cs) =
     (if 0 < skip then sub_from r repl (skip - 1) (c # bef) cs
      else (case match_at r bef (c # cs) of
              None \<Rightarrow> c # sub_from r repl 0 (c # bef) cs
            | Some (n, g) \<Rightarrow>
                if n = 0 then c # sub_from r repl 0 (c # bef) cs
                else repl @ sub_from r repl (n - 1) (c # bef) cs))"

definition re_sub :: "regex \<Rightarrow> string \<Rightarrow> string \<Rightarrow> string" where
  "re_sub r repl s = sub_from r repl 0 [] s"


text \<open>\<open>a|b|c\<close> and \<open>abc\<close> for several parts\<close>

fun alts :: "string list \<Rightarrow> regex" where
  "alts [] = Lit []"
| "alts [w] = Lit w"
| "alts (w # ws) = Alt (Lit w) (alts ws)"

fun seqs :: "regex list \<Rightarrow> regex" where
  "seqs [] = Lit []"
| "seqs [r] = r"
| "seqs (r # rs) = Seq r (seqs rs)"

text \<open>
  \<open>float(s)\<close> on the strings the processor passes to it: a captured
  \<open>\d+(?:\.\d+)?\<close> is read as a decimal and rounded to a float, so that a number
  beyond the range of a double (about 309 digits) is \<open>inf\<close>; a captured label word
  raises ValueError. The rest of Python's float syntax (signs, exponents, the words
  \<open>inf\<close> and \<open>nan\<close>) cannot come out of these groups.
\<close>

definition digit_value :: "char \<Rightarrow> nat" where
  "digit_value c = length (takeWhile (\<lambda>d. d \<noteq> c) digits)"

definition digits_value :: "string \<Rightarrow> nat" where
  "digits_value s = foldl (\<lambda>n c. 10 * n + digit_value c) 0 s"

definition py_float :: "string \<Rightarrow> error + pyfloat" where
  "py_float s =
     (let ip = takeWhile is_digit s; r = dropWhile is_digit s in
      if ip = [] then Inl (ValueError s)
      else (case r of
              [] \<Rightarrow> Inr (rnd (real (digits_value ip)))
            | c # fp \<Rightarrow>
                if c = CHR ''.'' \<and> fp \<noteq> [] \<and> list_all is_digit fp
                then Inr (rnd (real (digits_value ip)
                                 + real (digits_value fp) / 10 ^ length fp))
                else Inl (ValueError s)))"

section \<open>text_processor.py\<close>

subsection \<open>The tables of \<open>TextProcessor.__init__\<close>\<close>

definition word_pattern :: "string list \<Rightarrow> regex" where
  "word_pattern ws = seqs [WordB, Grp 1 (alts ws), WordB]"

definition shape_patterns :: "(string \<times> regex) list" where
  "shape_patterns =
     [(''circle'', word_pattern [''circle'', ''round'', ''circular'', ''disk'', ''ring'']),
      (''rectangle'', word_pattern [''rectangle'', ''rect'', ''square'', ''box'', ''rectangular'']),
      (''triangle'', word_pattern [''triangle'', ''triangular'', ''pyramid'']),
      (''hexagon'', word_pattern [''hexagon'', ''hex'', ''hexagonal'']),
      (''polygon'', word_pattern [''polygon'', ''poly'', ''shape'', ''figure''])]"

definition units :: "real dict" where
  "units =
     [(''mm'', 1), (''millimeter'', 1), (''millimeters'', 1),
      (''cm'', 10), (''centimeter'', 10), (''centimeters'', 10),
      (''m'', 1000), (''meter'', 1000), (''meters'', 1000),
      (''in'', 25.4), (''inch'', 25.4), (''inches'', 25.4),
      (''ft'', 304.8), (''foot'', 304.8), (''feet'', 304.8)]"

text \<open>\<open>\d+(?:\.\d+)?\<close>\<close>

definition number :: regex where
  "number = Seq (Plus Digit) (Opt (Seq (Lit ''.'') (Plus Digit)))"

text \<open>\<open>\b(label|l)\s*[=:]\s*(\d+(?:\.\d+)?)\s*([a-zA-Z]+)?\b\<close>\<close>

definition dimension_pattern :: "string \<Rightarrow> string \<Rightarrow> regex" where
  "dimension_pattern label alias =
     seqs [WordB, Grp 1 (alts [label, alias]), Star Space, One (AnyOf ''=:''), Star Space,
           Grp 2 number, Star Space, Opt (Grp 3 (Plus Alpha)), WordB]"

definition dimension_patterns :: "(string \<times> regex) list" where
  "dimension_patterns =
     [(''radius'', dimension_pattern ''radius'' ''r''),
      (''diameter'', dimension_pattern ''diameter'' ''d''),
      (''width'', dimension_pattern ''width'' ''w''),
      (''height'', dimension_pattern ''height'' ''h''),
      (''length'', dimension_pattern ''length'' ''l''),
      (''side'', dimension_pattern ''side'' ''s'')]"

subsection \<open>\<open>_normalize_text\<close>\<close>

definition normalize_text :: "string \<Rightarrow> string" where
  "normalize_text text =
     (let normalized = lower text;
          normalized = re_sub (Plus Space) '' '' normalized;
          normalized = re_sub (word_pattern [''r'', ''radius'']) ''radius'' normalized;
          normalized = re_sub (word_pattern [''d'', ''diameter'']) ''diameter'' normalized;
          normalized = re_sub (word_pattern [''w'', ''width'']) ''width'' normalized;
          normalized = re_sub (word_pattern [''h'', ''height'']) ''height'' normalized;
          normalized = re_sub (word_pattern [''l'', ''length'']) ''length'' normalized;
          normalized = re_sub (word_pattern [''s'', ''side'']) ''side'' normalized
      in strip normalized)"

subsection \<open>\<open>_detect_shape_type\<close>\<close>

fun first_shape :: "(string \<times> regex) list \<Rightarrow> string \<Rightarrow> string" where
  "first_shape [] text = ''circle''"
| "first_shape ((shape_name, pattern) # ps) text =
     (if search pattern text then shape_name else first_shape ps text)"

definition detect_shape_type :: "string \<Rightarrow> string \<Rightarrow> string" where
  "detect_shape_type text expected_shape =
     (if expected_shape \<noteq> ''Auto-detect'' then lower expected_shape
      else first_shape shape_patterns text)"

subsection \<open>\<open>_convert_to_mm\<close>\<close>

definition convert_to_mm :: "pyfloat \<Rightarrow> string \<Rightarrow> pyfloat" where
  "convert_to_mm v unit =
     (let unit_lower = lower unit in
      case map_of units unit_lower of Some f \<Rightarrow> fmul v (Fin f) | None \<Rightarrow> v)"

subsection \<open>\<open>_handle_special_cases\<close>\<close>

text \<open>\<open>(\d+(?:\.\d+)?)\s*(?:by|x|...)\s*(\d+(?:\.\d+)?)\<close>; the third alternative
  is the five bytes the source file holds there.\<close>

definition size_pattern :: regex where
  "size_pattern =
     seqs [Grp 1 number, Star Space,
           alts [''by'', ''x'', [CHR 0xC3, CHR 0x83, CHR 0xE2, CHR 0x80, CHR 0x94]],
           Star Space, Grp 2 number]"

text \<open>\<open>(\d+(?:\.\d+)?)\s*(mm|cm|m|in|ft)\<close>\<close>

definition simple_pattern :: regex where
  "simple_pattern =
     seqs [Grp 1 number, Star Space, Grp 2 (alts [''mm'', ''cm'', ''m'', ''in'', ''ft''])]"

definition circle_words :: "string \<Rightarrow> bool" where
  "circle_words text = (contains ''circle'' text \<or> contains ''round'' text)"

fun size_matches_loop :: "string \<Rightarrow> string list list \<Rightarrow> pyfloat dict \<Rightarrow> error + pyfloat dict" where
  "size_matches_loop text [] dimensions = Inr dimensions"
| "size_matches_loop text (m # rest) dimensions =
     (case py_float (m ! 0) of
        Inl e \<Rightarrow> Inl e
      | Inr val1 \<Rightarrow>
         (case py_float (m ! 1) of
            Inl e \<Rightarrow> Inl e
          | Inr val2 \<Rightarrow>
              size_matches_loop text rest
                (if circle_words text
                 then (if \<not> has_key ''diameter'' dimensions
                       then dict_set ''diameter'' (fmax val1 val2) dimensions else dimensions)
                 else (let d1 = (if \<not> has_key ''width'' dimensions
                                 then dict_set ''width'' val1 dimensions else dimensions)
                       in if \<not> has_key ''height'' d1
                          then dict_set ''height'' val2 d1 else d1))))"

definition handle_special_cases :: "string \<Rightarrow> pyfloat dict \<Rightarrow> error + pyfloat dict" where
  "handle_special_cases text dimensions =
     (case size_matches_loop text (findall size_pattern [1, 2] text) dimensions of
        Inl e \<Rightarrow> Inl e
      | Inr dims \<Rightarrow>
         (case findall simple_pattern [1, 2] text of
            [] \<Rightarrow> Inr dims
          | m # _ \<Rightarrow>
              if dims \<noteq> [] then Inr dims
              else (case py_float (m ! 0) of
                      Inl e \<Rightarrow> Inl e
                    | Inr v \<Rightarrow>
                        (let converted_value = convert_to_mm v (m ! 1) in
                         if circle_words text
                         then Inr (dict_set ''radius'' (fdiv_by converted_value 2) dims)
                         else Inr (dict_set ''height'' converted_value
                                     (dict_set ''width'' converted_value dims))))))"

subsection \<open>\<open>_extract_dimensions\<close>\<close>

text \<open>
  The inner loop over the matches of one labelled pattern. \<open>match[0]\<close> is the first
  group of the pattern, which is the label, and \<open>match[1]\<close> the second, the number.
\<close>

fun store_matches :: "string \<Rightarrow> string list list \<Rightarrow> pyfloat dict \<Rightarrow> error + pyfloat dict" where
  "store_matches dim_name [] dimensions = Inr dimensions"
| "store_matches dim_name (m # rest) dimensions =
     (case py_float (m ! 0) of
        Inl e \<Rightarrow> Inl e
      | Inr v \<Rightarrow>
          (let unit = (if 1 < length m then m ! 1 else ''mm'');
               converted_value = convert_to_mm v unit
           in store_matches dim_name rest (dict_set dim_name converted_value dimensions)))"

fun scan_patterns :: "(string \<times> regex) list \<Rightarrow> string \<Rightarrow> pyfloat dict \<Rightarrow> error + pyfloat dict" where
  "scan_patterns [] text dimensions = Inr dimensions"
| "scan_patterns ((dim_name, pattern) # ps) text dimensions =
     (case store_matches dim_name (findall pattern [1, 2, 3] text) dimensions of
        Inl e \<Rightarrow> Inl e
      | Inr dims \<Rightarrow> scan_patterns ps text dims)"

definition extract_dimensions :: "string \<Rightarrow> error + pyfloat dict" where
  "extract_dimensions text =
     (case scan_patterns dimension_patterns text [] of
        Inl e \<Rightarrow> Inl e
      | Inr dimensions \<Rightarrow> handle_special_cases text dimensions)"


subsection \<open>\<open>_construct_shape_data\<close> and the five builders\<close>

text \<open>\<open>vertex_counts.get(shape_type, 4)\<close>\<close>

definition get_vertex_count :: "string \<Rightarrow> real" where
  "get_vertex_count shape_type =
     dict_get [(''circle'', 0), (''rectangle'', 4), (''triangle'', 3),
               (''hexagon'', 6), (''polygon'', 8)] shape_type 4"

definition construct_circle_data :: "pyfloat dict \<Rightarrow> val dict" where
  "construct_circle_data dimensions =
     (let radius = dict_get dimensions ''radius'' (Fin 25);
          diameter = dict_get dimensions ''diameter'' (fmul radius (Fin 2));
          radius = (if has_key ''diameter'' dimensions then fdiv_by diameter 2 else radius);
          diameter = (if \<not> has_key ''diameter'' dimensions \<and> has_key ''radius'' dimensions
                      then fmul radius (Fin 2) else diameter)
      in [(''center'', Pt 0 0),
          (''radius'', num radius),
          (''diameter'', num diameter),
          (''area'', num (fmul (fmul (Fin pi) radius) radius)),
          (''perimeter'', num (fmul (Fin pi) diameter))])"

definition construct_rectangle_data :: "pyfloat dict \<Rightarrow> val dict" where
  "construct_rectangle_data dimensions =
     (let width = dict_get dimensions ''width'' (Fin 100);
          height = dict_get dimensions ''height'' (Fin 75);
          height' = (if has_key ''width'' dimensions \<and> \<not> has_key ''height'' dimensions
                     then width else height);
          width' = (if \<not> (has_key ''width'' dimensions \<and> \<not> has_key ''height'' dimensions)
                       \<and> has_key ''height'' dimensions \<and> \<not> has_key ''width'' dimensions
                    then height else width)
      in [(''center'', Pt 0 0),
          (''width'', num width'),
          (''height'', num height'),
          (''area'', num (fmul width' height')),
          (''perimeter'', num (fmul (Fin 2) (fadd width' height')))])"

definition construct_triangle_data :: "pyfloat dict \<Rightarrow> val dict" where
  "construct_triangle_data dimensions =
     (let base = dict_get dimensions ''width'' (dict_get dimensions ''length'' (Fin 100));
          height = dict_get dimensions ''height'' (Fin 75);
          area = fmul (fmul (Fin 0.5) base) height;
          side_length = fsqrt (fadd (fmul base base) (fmul height height));
          perimeter = fmul (Fin 3) side_length
      in [(''center'', Pt 0 0),
          (''width'', num base),
          (''height'', num height),
          (''area'', num area),
          (''perimeter'', num perimeter)])"

definition construct_hexagon_data :: "pyfloat dict \<Rightarrow> val dict" where
  "construct_hexagon_data dimensions =
     (let side_length = dict_get dimensions ''side'' (Fin 50);
          area = fdiv_by (fmul (fmul (fmul (Fin 3) (Fin (sqrt 3))) side_length) side_length) 2;
          perimeter = fmul (Fin 6) side_length
      in [(''center'', Pt 0 0),
          (''side_length'', num side_length),
          (''width'', num (fmul (Fin 2) side_length)),
          (''height'', num (fmul (Fin (sqrt 3)) side_length)),
          (''area'', num area),
          (''perimeter'', num perimeter)])"

definition construct_polygon_data :: "pyfloat dict \<Rightarrow> val dict" where
  "construct_polygon_data dimensions =
     (let side_length = dict_get dimensions ''side'' (Fin 50);
          width = dict_get dimensions ''width'' (Fin 100);
          height = dict_get dimensions ''height'' (Fin 100)
      in [(''center'', Pt 0 0),
          (''side_length'', num side_length),
          (''width'', num width),
          (''height'', num height),
          (''area'', num (fmul (fmul width height) (Fin 0.8))),
          (''perimeter'', num (fmul (Fin 8) side_length))])"

definition construct_shape_data :: "string \<Rightarrow> pyfloat dict \<Rightarrow> string \<Rightarrow> val dict" where
  "construct_shape_data shape_type dimensions text =
     (let shape_data = [(''type'', Str shape_type),
                        (''confidence'', Num 85),
                        (''vertices'', Num (get_vertex_count shape_type)),
                        (''area'', Num 0),
                        (''perimeter'', Num 0)]
      in if shape_type = ''circle'' then dict_update shape_data (construct_circle_data dimensions)
         else if shape_type = ''rectangle''
           then dict_update shape_data (construct_rectangle_data dimensions)
         else if shape_type = ''triangle''
           then dict_update shape_data (construct_triangle_data dimensions)
         else if shape_type = ''hexagon''
           then dict_update shape_data (construct_hexagon_data dimensions)
         else dict_update shape_data (construct_polygon_data dimensions))"

subsection \<open>\<open>_add_metadata\<close>\<close>

text \<open>\<open>now\<close> is what \<open>datetime.datetime.now().isoformat()\<close> returns at the call.\<close>

definition add_metadata :: "val dict \<Rightarrow> string \<Rightarrow> string \<Rightarrow> error + val dict" where
  "add_metadata shape_data text now =
     (let confidence_boost = 0;
          confidence_boost = (if 5 < length shape_data
                              then confidence_boost + 5 else confidence_boost);
          confidence_boost = (if list_ex (\<lambda>unit. contains unit text)
                                   [''mm'', ''cm'', ''m'', ''in'', ''ft'']
                              then confidence_boost + 5 else confidence_boost);
          confidence_boost = (if list_ex (\<lambda>shape. contains shape text)
                                   [''circle'', ''rectangle'', ''triangle'', ''hexagon'']
                              then confidence_boost + 5 else confidence_boost)
      in case map_of shape_data ''confidence'' of
           None \<Rightarrow> Inl (KeyError ''confidence'')
         | Some (Num c) \<Rightarrow>
             Inr (dict_set ''source'' (Str ''text_input'')
                   (dict_set ''timestamp'' (Str now)
                     (dict_set ''confidence'' (Num (min 100 (c + confidence_boost))) shape_data)))
         | Some _ \<Rightarrow> Inl (TypeError ''confidence''))"

subsection \<open>\<open>process_text\<close>\<close>

definition process_text :: "string \<Rightarrow> string \<Rightarrow> string \<Rightarrow> error + val dict" where
  "process_text text_input expected_shape now =
     (let normalized_text = normalize_text text_input;
          detected_shape = detect_shape_type normalized_text expected_shape
      in case extract_dimensions normalized_text of
           Inl e \<Rightarrow> Inl (TextProcessingFailed e)
         | Inr dimensions \<Rightarrow>
            (case add_metadata (construct_shape_data detected_shape dimensions normalized_text)
                    normalized_text now of
               Inl e \<Rightarrow> Inl (TextProcessingFailed e)
             | Inr shape_data \<Rightarrow> Inr shape_data))"

section \<open>sketch_processor.py\<close>

text \<open>
  \<open>area / rect_area if rect_area > 0 else 0\<close> with \<open>rect_area = w * h\<close> of the
  bounding rectangle.
\<close>

definition area_ratio :: "contour \<Rightarrow> real" where
  "area_ratio c =
     (case boundingRect c of (x, y, w, h) \<Rightarrow>
        if 0 < w * h then contourArea c / real_of_int (w * h) else 0)"

definition rect_center :: "contour \<Rightarrow> val" where
  "rect_center c =
     (case boundingRect c of (x, y, w, h) \<Rightarrow>
        Pt (real_of_int x + real_of_int w / 2) (real_of_int y + real_of_int h / 2))"

definition rect_width :: "contour \<Rightarrow> real" where
  "rect_width c = (case boundingRect c of (x, y, w, h) \<Rightarrow> real_of_int w)"

definition rect_height :: "contour \<Rightarrow> real" where
  "rect_height c = (case boundingRect c of (x, y, w, h) \<Rightarrow> real_of_int h)"

text \<open>
  Each detector takes \<open>len(approx)\<close>, the measured contour and the precision, and
  returns \<open>None\<close> or one hypothesis.
\<close>

definition detect_circle :: "nat \<Rightarrow> contour \<Rightarrow> int \<Rightarrow> val dict option" where
  "detect_circle approx c precision =
     (let area = contourArea c; perimeter = arcLength c in
      if perimeter = 0 then None
      else (let circularity = 4 * pi * area / (perimeter * perimeter);
                circle_threshold = 0.7 + (real_of_int precision * 0.02)
            in if circle_threshold < circularity
               then (case minEnclosingCircle c of ((x, y), radius) \<Rightarrow>
                       Some [(''type'', Str ''circle''),
                             (''center'', Pt x y),
                             (''radius'', Num radius),
                             (''confidence'', Num (min 100 (circularity * 100))),
                             (''vertices'', Num (real approx)),
                             (''area'', Num area),
                             (''perimeter'', Num perimeter)])
               else None))"

definition detect_rectangle :: "nat \<Rightarrow> contour \<Rightarrow> int \<Rightarrow> val dict option" where
  "detect_rectangle approx c precision =
     (if approx = 4
      then (let rect_threshold = 0.6 + (real_of_int precision * 0.03) in
            if rect_threshold < area_ratio c
            then Some [(''type'', Str ''rectangle''),
                       (''center'', rect_center c),
                       (''width'', Num (rect_width c)),
                       (''height'', Num (rect_height c)),
                       (''confidence'', Num (min 100 (area_ratio c * 100))),
                       (''vertices'', Num 4),
                       (''area'', Num (contourArea c)),
                       (''perimeter'', Num (arcLength c))]
            else None)
      else None)"

definition detect_triangle :: "nat \<Rightarrow> contour \<Rightarrow> int \<Rightarrow> val dict option" where
  "detect_triangle approx c precision =
     (if approx = 3
      then (let expected_ratio = 0.5;
                triangle_threshold = 0.3 + (real_of_int precision * 0.04) in
            if \<bar>area_ratio c - expected_ratio\<bar> < triangle_threshold
            then Some [(''type'', Str ''triangle''),
                       (''center'', rect_center c),
                       (''width'', Num (rect_width c)),
                       (''height'', Num (rect_height c)),
                       (''confidence'',
                          Num (min 100 ((1 - \<bar>area_ratio c - expected_ratio\<bar>) * 100))),
                       (''vertices'', Num 3),
                       (''area'', Num (contourArea c)),
                       (''perimeter'', Num (arcLength c))]
            else None)
      else None)"

definition detect_hexagon :: "nat \<Rightarrow> contour \<Rightarrow> int \<Rightarrow> val dict option" where
  "detect_hexagon approx c precision =
     (if approx = 6
      then (let expected_ratio = 0.866;
                hex_threshold = 0.2 + (real_of_int precision * 0.03) in
            if \<bar>area_ratio c - expected_ratio\<bar> < hex_threshold
            then Some [(''type'', Str ''hexagon''),
                       (''center'', rect_center c),
                       (''width'', Num (rect_width c)),
                       (''height'', Num (rect_height c)),
                       (''confidence'',
                          Num (min 100 ((1 - \<bar>area_ratio c - expected_ratio\<bar>) * 100))),
                       (''vertices'', Num 6),
                       (''area'', Num (contourArea c)),
                       (''perimeter'', Num (arcLength c))]
            else None)
      else None)"

definition detect_polygon :: "nat \<Rightarrow> contour \<Rightarrow> int \<Rightarrow> val dict option" where
  "detect_polygon approx c precision =
     (if 6 < approx
      then (if 0.3 < area_ratio c
            then Some [(''type'', Str ''polygon''),
                       (''center'', rect_center c),
                       (''width'', Num (rect_width c)),
                       (''height'', Num (rect_height c)),
                       (''confidence'', Num (min 100 (area_ratio c * 100))),
                       (''vertices'', Num (real approx)),
                       (''area'', Num (contourArea c)),
                       (''perimeter'', Num (arcLength c))]
            else None)
      else None)"

text \<open>\<open>self.shape_templates\<close>, in its insertion order\<close>

definition shape_templates :: "(string \<times> (nat \<Rightarrow> contour \<Rightarrow> int \<Rightarrow> val dict option)) list" where
  "shape_templates =
     [(''circle'', detect_circle), (''rectangle'', detect_rectangle),
      (''triangle'', detect_triangle), (''hexagon'', detect_hexagon),
      (''polygon'', detect_polygon)]"

subsection \<open>\<open>_detect_shapes\<close>\<close>

text \<open>
  The input is the list of contours that \<open>cv2.findContours\<close> returns on the
  preprocessed image. No detector raises, so the \<open>try\<close> around each call has no
  failing branch.
\<close>

fun run_detectors ::
  "(string \<times> (nat \<Rightarrow> contour \<Rightarrow> int \<Rightarrow> val dict option)) list \<Rightarrow> contour \<Rightarrow> int \<Rightarrow> val dict list"
where
  "run_detectors [] c precision = []"
| "run_detectors ((shape_name, detector_func) # ds) c precision =
     (case detector_func (approx_len c) c precision of
        None \<Rightarrow> run_detectors ds c precision
      | Some shape_data \<Rightarrow>
          dict_set ''approx_contour'' (Approx (approx_len c))
            (dict_set ''contour'' (Contour c) shape_data)
          # run_detectors ds c precision)"

definition detect_shapes :: "contour list \<Rightarrow> int \<Rightarrow> val dict list" where
  "detect_shapes contours precision =
     (let min_area = 100 * real_of_int precision;
          valid_contours = filter (\<lambda>c. min_area < contourArea c) contours
      in concat (map (\<lambda>c. run_detectors shape_templates c precision) valid_contours))"

subsection \<open>\<open>_select_best_shape\<close>\<close>

text \<open>\<open>s['type']\<close> and \<open>x['confidence']\<close>\<close>

definition type_of :: "val dict \<Rightarrow> error + val" where
  "type_of s = (case map_of s ''type'' of Some v \<Rightarrow> Inr v | None \<Rightarrow> Inl (KeyError ''type''))"

definition confidence_of :: "val dict \<Rightarrow> error + real" where
  "confidence_of s =
     (case map_of s ''confidence'' of
        None \<Rightarrow> Inl (KeyError ''confidence'')
      | Some (Num c) \<Rightarrow> Inr c
      | Some _ \<Rightarrow> Inl (TypeError ''confidence''))"

text \<open>
  \<open>max(xs, key=lambda x: x['confidence'])\<close>: the running best is replaced only by a
  strictly larger key, so the first of several maximal items is returned.
\<close>

fun max_loop :: "val dict \<Rightarrow> real \<Rightarrow> val dict list \<Rightarrow> error + val dict" where
  "max_loop best best_key [] = Inr best"
| "max_loop best best_key (x # xs) =
     (case confidence_of x of
        Inl e \<Rightarrow> Inl e
      | Inr k \<Rightarrow> if best_key < k then max_loop x k xs else max_loop best best_key xs)"

definition max_by_confidence :: "val dict list \<Rightarrow> error + val dict" where
  "max_by_confidence xs =
     (case xs of
        [] \<Rightarrow> Inl (ValueError ''max() arg is an empty sequence'')
      | x # rest \<Rightarrow> (case confidence_of x of Inl e \<Rightarrow> Inl e | Inr k \<Rightarrow> max_loop x k rest))"

text \<open>\<open>[s for s in detected_shapes if s['type'] == t]\<close>\<close>

fun of_type :: "string \<Rightarrow> val dict list \<Rightarrow> error + val dict list" where
  "of_type t [] = Inr []"
| "of_type t (s # ss) =
     (case type_of s of
        Inl e \<Rightarrow> Inl e
      | Inr t' \<Rightarrow> (case of_type t ss of
                    Inl e \<Rightarrow> Inl e
                  | Inr r \<Rightarrow> Inr (if t' = Str t then s # r else r)))"

definition fallback_circle :: "val dict" where
  "fallback_circle =
     [(''type'', Str ''circle''),
      (''center'', Pt 0 0),
      (''radius'', Num 50),
      (''confidence'', Num 50),
      (''vertices'', Num 0),
      (''area'', Num 7854),
      (''perimeter'', Num 314)]"

definition select_best_shape :: "val dict list \<Rightarrow> string \<Rightarrow> error + val dict" where
  "select_best_shape detected_shapes expected_shape =
     (if detected_shapes = [] then Inr fallback_circle
      else if expected_shape \<noteq> ''Auto-detect''
      then (case of_type (lower expected_shape) detected_shapes of
              Inl e \<Rightarrow> Inl e
            | Inr expected_shapes \<Rightarrow>
                if expected_shapes \<noteq> [] then max_by_confidence expected_shapes
                else max_by_confidence detected_shapes)
      else max_by_confidence detected_shapes)"

subsection \<open>\<open>_enhance_shape_data\<close> and \<open>process_sketch\<close>\<close>

definition enhance_shape_data :: "val dict \<Rightarrow> int \<Rightarrow> string \<Rightarrow> error + val dict" where
  "enhance_shape_data shape_data precision now =
     (let enhanced = shape_data;
          scale_factor = 1 + (real_of_int precision - 5) * 0.1;
          enhanced = dict_set ''scale_factor'' (Num scale_factor) enhanced;
          enhanced = dict_set ''manufacturable'' (Flag True) enhanced
      in if precision = 0 then Inl ZeroDivisionError
         else (let enhanced = dict_set ''min_feature_size''
                                (Num (max 1 (10 / real_of_int precision))) enhanced
               in Inr (dict_set ''timestamp'' (Str now) enhanced)))"

text \<open>
  \<open>decoded\<close> is \<open>None\<close> when \<open>cv2.imdecode\<close> cannot read the upload, and otherwise
  holds the contours found on the preprocessed image.
\<close>

definition process_sketch :: "contour list option \<Rightarrow> string \<Rightarrow> int \<Rightarrow> string \<Rightarrow> error + val dict" where
  "process_sketch decoded expected_shape precision now =
     (case decoded of
        None \<Rightarrow> Inl (SketchProcessingFailed (ValueError ''Could not decode uploaded image''))
      | Some contours \<Rightarrow>
          (let detected_shapes = detect_shapes contours precision in
           case select_best_shape detected_shapes expected_shape of
             Inl e \<Rightarrow> Inl (SketchProcessingFailed e)
           | Inr best_shape \<Rightarrow>
               (case enhance_shape_data best_shape precision now of
                  Inl e \<Rightarrow> Inl (SketchProcessingFailed e)
                | Inr enhanced_shape \<Rightarrow> Inr enhanced_shape)))"


section \<open>What the specification says of a shape record\<close>

definition shape_types :: "string list" where
  "shape_types = [''circle'', ''rectangle'', ''triangle'', ''hexagon'', ''polygon'']"

definition num_field :: "val dict \<Rightarrow> string \<Rightarrow> real option" where
  "num_field r k = (case map_of r k of Some (Num x) \<Rightarrow> Some x | _ \<Rightarrow> None)"

definition str_field :: "val dict \<Rightarrow> string \<Rightarrow> string option" where
  "str_field r k = (case map_of r k of Some (Str x) \<Rightarrow> Some x | _ \<Rightarrow> None)"

text \<open>The record's type is one of the five shape names.\<close>

definition type_ok :: "val dict \<Rightarrow> bool" where
  "type_ok r = (case str_field r ''type'' of Some t \<Rightarrow> t \<in> set shape_types | None \<Rightarrow> False)"


text \<open>
  Python's \<open>v >= 0\<close> on a stored number: true of a finite number that is not
  negative and of the positive infinity, false of \<open>nan\<close>.
\<close>

definition nonneg_val :: "val \<Rightarrow> bool" where
  "nonneg_val v = (case v of Num a \<Rightarrow> 0 \<le> a | PosInf \<Rightarrow> True | _ \<Rightarrow> False)"

definition field_nonneg :: "val dict \<Rightarrow> string \<Rightarrow> bool" where
  "field_nonneg r k = (case map_of r k of Some v \<Rightarrow> nonneg_val v | None \<Rightarrow> False)"


text \<open>The stored pair of area and perimeter, when both are finite numbers.\<close>

definition stored :: "val dict \<Rightarrow> (real \<times> real) option" where
  "stored r =
     (case (num_field r ''area'', num_field r ''perimeter'') of
        (Some a, Some q) \<Rightarrow> Some (a, q)
      | _ \<Rightarrow> None)"

text \<open>
  Area and perimeter recomputed from the record's own geometry fields with the
  formulas the specification gives per type: circle \<open>\<pi>r\<^sup>2\<close> and \<open>\<pi>d\<close>, rectangle
  \<open>w\<sqdot>h\<close> and \<open>2(w+h)\<close>, triangle \<open>0.5\<sqdot>base\<sqdot>height\<close> and
  \<open>3\<sqdot>\<surd>(base\<^sup>2+height\<^sup>2)\<close>, hexagon \<open>(3\<surd>3/2)s\<^sup>2\<close> and \<open>6s\<close>, polygon
  \<open>0.8\<sqdot>w\<sqdot>h\<close> and \<open>8\<sqdot>s\<close>.
\<close>

definition recomputed :: "val dict \<Rightarrow> (real \<times> real) option" where
  "recomputed r =
     (case str_field r ''type'' of
        None \<Rightarrow> None
      | Some t \<Rightarrow>
          if t = ''circle''
          then (case (num_field r ''radius'', num_field r ''diameter'') of
                  (Some rad, Some d) \<Rightarrow> Some (pi * rad\<^sup>2, pi * d)
                | _ \<Rightarrow> None)
          else if t = ''rectangle''
          then (case (num_field r ''width'', num_field r ''height'') of
                  (Some w, Some h) \<Rightarrow> Some (w * h, 2 * (w + h))
                | _ \<Rightarrow> None)
          else if t = ''triangle''
          then (case (num_field r ''width'', num_field r ''height'') of
                  (Some b, Some h) \<Rightarrow> Some (0.5 * b * h, 3 * sqrt (b\<^sup>2 + h\<^sup>2))
                | _ \<Rightarrow> None)
          else if t = ''hexagon''
          then (case num_field r ''side_length'' of
                  Some s \<Rightarrow> Some (3 * sqrt 3 / 2 * s\<^sup>2, 6 * s)
                | None \<Rightarrow> None)
          else if t = ''polygon''
          then (case (num_field r ''width'', num_field r ''height'', num_field r ''side_length'') of
                  (Some w, Some h, Some s) \<Rightarrow> Some (0.8 * w * h, 8 * s)
                | _ \<Rightarrow> None)
          else None)"

text \<open>A hypothesis that \<open>_select_best_shape\<close> can read: it has a type and a numeric confidence.\<close>

definition hypothesis_ok :: "val dict \<Rightarrow> bool" where
  "hypothesis_ok h = (map_of h ''type'' \<noteq> None \<and> num_field h ''confidence'' \<noteq> None)"

definition conf :: "val dict \<Rightarrow> real" where
  "conf h = (case num_field h ''confidence'' of Some c \<Rightarrow> c | None \<Rightarrow> 0)"

text \<open>
  \<open>r\<close> is the highest-confidence entry of \<open>xs\<close>, and the first such entry:
  everything before it in the list has a smaller confidence, and nothing after it
  has a larger one.
\<close>

definition first_max :: "val dict list \<Rightarrow> val dict \<Rightarrow> bool" where
  "first_max xs r =
     (\<exists>ys zs. xs = ys @ r # zs
        \<and> (\<forall>y\<in>set ys. conf y < conf r)
        \<and> (\<forall>z\<in>set zs. conf z \<le> conf r))"

text \<open>The hypotheses whose type is \<open>t\<close>, in their order.\<close>

definition with_type :: "string \<Rightarrow> val dict list \<Rightarrow> val dict list" where
  "with_type t hs = filter (\<lambda>h. map_of h ''type'' = Some (Str t)) hs"

text \<open>A record without its timestamp.\<close>

definition without_timestamp :: "val dict \<Rightarrow> val dict" where
  "without_timestamp r = filter (\<lambda>kv. fst kv \<noteq> ''timestamp'') r"

text \<open>Python's \<open>x >= 0\<close> on a float.\<close>

definition fl_nonneg :: "pyfloat \<Rightarrow> bool" where
  "fl_nonneg x = (case x of Fin a \<Rightarrow> 0 \<le> a | PInf \<Rightarrow> True | _ \<Rightarrow> False)"

text \<open>A finite float: a number inside the range of a double.\<close>

definition is_fin :: "pyfloat \<Rightarrow> bool" where
  "is_fin x =
     (case x of Fin a \<Rightarrow> - overflow_bound < a \<and> a < overflow_bound | _ \<Rightarrow> False)"

text \<open>No dimension is negative or \<open>nan\<close>.\<close>

definition all_nonneg :: "pyfloat dict \<Rightarrow> bool" where
  "all_nonneg d = list_all (\<lambda>kv. fl_nonneg (snd kv)) d"

text \<open>Every dimension is finite: no number of the text went beyond the float range.\<close>

definition all_finite :: "pyfloat dict \<Rightarrow> bool" where
  "all_finite d = list_all (\<lambda>kv. is_fin (snd kv)) d"

section \<open>Sample inputs\<close>

text \<open>What the text processor returns for \<open>hello world\<close> at the clock reading \<open>now\<close>.\<close>

definition hello_world_record :: "string \<Rightarrow> val dict" where
  "hello_world_record now =
     [(''type'', Str ''circle''), (''confidence'', Num 90), (''vertices'', Num 0),
      (''area'', Num (pi * 25 * 25)), (''perimeter'', Num (pi * 50)),
      (''center'', Pt 0 0), (''radius'', Num 25), (''diameter'', Num 50),
      (''timestamp'', Str now), (''source'', Str ''text_input'')]"

text \<open>
  What the text processor returns for \<open>A circle with radius 25mm\<close> at the clock
  reading \<open>now\<close>.
\<close>

definition circle_25mm_record :: "string \<Rightarrow> val dict" where
  "circle_25mm_record now =
     [(''type'', Str ''circle''), (''confidence'', Num 100), (''vertices'', Num 0),
      (''area'', Num (pi * 12.5 * 12.5)), (''perimeter'', Num (pi * 25)),
      (''center'', Pt 0 0), (''radius'', Num 12.5), (''diameter'', Num 25),
      (''timestamp'', Str now), (''source'', Str ''text_input'')]"

text \<open>A thin triangle: a tenth of its bounding box.\<close>

definition thin_triangle :: contour where
  "thin_triangle =
     \<lparr>contourArea = 1000, arcLength = 290, boundingRect = (0, 0, 100, 100),
      minEnclosingCircle = ((50, 50), 71), approx_len = 3\<rparr>"

text \<open>A six-cornered outline that fills 62 percent of its bounding box.\<close>

definition loose_hexagon :: contour where
  "loose_hexagon =
     \<lparr>contourArea = 6200, arcLength = 330, boundingRect = (0, 0, 100, 100),
      minEnclosingCircle = ((50, 50), 58), approx_len = 6\<rparr>"

text \<open>A roundish outline that fills three quarters of its bounding box.\<close>

definition round_blob :: contour where
  "round_blob =
     \<lparr>contourArea = 7500, arcLength = 320, boundingRect = (0, 0, 100, 100),
      minEnclosingCircle = ((50, 50), 52), approx_len = 8\<rparr>"

text \<open>
  A drawn circle of radius 50 as \<open>cv2\<close> sees it: the polygon approximation has
  eight corners.
\<close>

definition drawn_circle :: contour where
  "drawn_circle =
     \<lparr>contourArea = 7800, arcLength = 330, boundingRect = (50, 50, 101, 101),
      minEnclosingCircle = ((100, 100), 50.5), approx_len = 8\<rparr>"

text \<open>A hand-drawn rectangle with wobbly sides inside a 100 by 100 box.\<close>

definition drawn_rectangle :: contour where
  "drawn_rectangle =
     \<lparr>contourArea = 8500, arcLength = 440, boundingRect = (10, 10, 100, 100),
      minEnclosingCircle = ((60, 60), 70), approx_len = 4\<rparr>"

text \<open>What the sketch processor returns for the drawn circle alone at precision 7.\<close>

definition drawn_circle_record :: "string \<Rightarrow> val dict" where
  "drawn_circle_record now =
     [(''type'', Str ''circle''), (''center'', Pt 100 100), (''radius'', Num 50.5),
      (''confidence'', Num (min 100 (4 * pi * 7800 / (330 * 330) * 100))),
      (''vertices'', Num 8), (''area'', Num 7800), (''perimeter'', Num 330),
      (''contour'', Contour drawn_circle), (''approx_contour'', Approx 8),
      (''scale_factor'', Num 1.2), (''manufacturable'', Flag True),
      (''min_feature_size'', Num (10 / 7)), (''timestamp'', Str now)]"

text \<open>What the sketch processor returns for the drawn rectangle alone at precision 7.\<close>

definition drawn_rectangle_record :: "string \<Rightarrow> val dict" where
  "drawn_rectangle_record now =
     [(''type'', Str ''rectangle''), (''center'', Pt 60 60), (''width'', Num 100),
      (''height'', Num 100), (''confidence'', Num 85), (''vertices'', Num 4),
      (''area'', Num 8500), (''perimeter'', Num 440),
      (''contour'', Contour drawn_rectangle), (''approx_contour'', Approx 4),
      (''scale_factor'', Num 1.2), (''manufacturable'', Flag True),
      (''min_feature_size'', Num (10 / 7)), (''timestamp'', Str now)]"

text \<open>Four hypotheses: a confident circle and three rectangles, two of them tied.\<close>

definition sample_hypotheses :: "val dict list" where
  "sample_hypotheses =
     [[(''type'', Str ''circle''), (''confidence'', Num 90), (''radius'', Num 40)],
      [(''type'', Str ''rectangle''), (''confidence'', Num 60), (''width'', Num 10)],
      [(''type'', Str ''rectangle''), (''confidence'', Num 70), (''width'', Num 20)],
      [(''type'', Str ''rectangle''), (''confidence'', Num 70), (''width'', Num 30)]]"


section \<open>The float operations\<close>

lemma overflow_bound_large: "10 ^ 9 < overflow_bound"
proof -
  have "(2::real) ^ 970 * 1 \<le> 2 ^ 970 * (2 ^ 54 - 1)"
    by (intro mult_left_mono) simp_all
  also have "\<dots> = overflow_bound"
    by (simp add: overflow_bound_def algebra_simps flip: power_add)
  finally have a: "(2::real) ^ 970 \<le> overflow_bound" by simp
  have "(10::real) ^ 9 < 2 ^ 30" by simp
  also have "(2::real) ^ 30 \<le> 2 ^ 970" by (intro power_increasing) simp_all
  finally show ?thesis using a by simp
qed

lemma overflow_bound_pos: "0 < overflow_bound"
  using overflow_bound_large by (simp add: order_less_trans [of 0 "10 ^ 9"])

lemma rnd_small: "- (10 ^ 9) \<le> x \<Longrightarrow> x \<le> 10 ^ 9 \<Longrightarrow> rnd x = Fin x"
  using overflow_bound_large by (simp add: rnd_def)

lemma rnd_Fin: "rnd x = Fin a \<Longrightarrow> a = x"
  by (simp add: rnd_def split: if_splits)


lemma rnd_nonneg: "0 \<le> x \<Longrightarrow> fl_nonneg (rnd x)"
  using overflow_bound_pos by (simp add: rnd_def fl_nonneg_def)



lemma is_fin_small: "- (10 ^ 9) \<le> a \<Longrightarrow> a \<le> 10 ^ 9 \<Longrightarrow> is_fin (Fin a)"
  using overflow_bound_large by (simp add: is_fin_def)

lemma fmul_Fin: "fmul x y = Fin a \<Longrightarrow> \<exists>b c. x = Fin b \<and> y = Fin c \<and> a = b * c"
  by (cases x; cases y) (auto simp: fmul_def Let_def dest: rnd_Fin split: if_splits)

lemma fadd_Fin: "fadd x y = Fin a \<Longrightarrow> \<exists>b c. x = Fin b \<and> y = Fin c \<and> a = b + c"
  by (cases x; cases y) (auto simp: fadd_def dest: rnd_Fin)

lemma fdiv_by_Fin: "fdiv_by x d = Fin a \<Longrightarrow> \<exists>b. x = Fin b \<and> a = b / d"
  by (cases x) (auto simp: fdiv_by_def dest: rnd_Fin)

lemma fsqrt_Fin: "fsqrt x = Fin a \<Longrightarrow> \<exists>b. x = Fin b \<and> 0 \<le> b \<and> a = sqrt b"
  by (cases x) (auto simp: fsqrt_def split: if_splits)

lemma num_Num: "num x = Num a \<longleftrightarrow> x = Fin a"
  by (cases x) auto


lemma fl_nonneg_fmul_pos:
  "fl_nonneg x \<Longrightarrow> 0 < c \<Longrightarrow> fl_nonneg (fmul x (Fin c))"
  "fl_nonneg x \<Longrightarrow> 0 < c \<Longrightarrow> fl_nonneg (fmul (Fin c) x)"
  by (cases x; auto simp: fmul_def fl_nonneg_def Let_def intro!: rnd_nonneg [unfolded fl_nonneg_def])+




lemma fl_nonneg_fadd: "fl_nonneg x \<Longrightarrow> fl_nonneg y \<Longrightarrow> fl_nonneg (fadd x y)"
  by (cases x; cases y) (auto simp: fadd_def fl_nonneg_def intro!: rnd_nonneg [unfolded fl_nonneg_def])


lemma fl_nonneg_fdiv_by: "fl_nonneg x \<Longrightarrow> 0 < d \<Longrightarrow> fl_nonneg (fdiv_by x d)"
  by (cases x) (auto simp: fdiv_by_def fl_nonneg_def intro!: rnd_nonneg [unfolded fl_nonneg_def])


text \<open>The argument of the one \<open>math.sqrt\<close> call is never a negative number.\<close>

lemma sum_of_squares_not_negative:
  "(case fadd (fmul b b) (fmul h h) of Fin a \<Rightarrow> 0 \<le> a | NInf \<Rightarrow> False | _ \<Rightarrow> True)"
proof -
  have sq: "fmul x x = NaN \<or> fl_nonneg (fmul x x)" for x
    by (cases x) (auto simp: fmul_def fl_nonneg_def intro!: rnd_nonneg [unfolded fl_nonneg_def])
  have "fadd u v = NaN \<or> fl_nonneg (fadd u v)"
    if "u = NaN \<or> fl_nonneg u" "v = NaN \<or> fl_nonneg v" for u v
    using that fl_nonneg_fadd [of u v] by (cases u; cases v) (auto simp: fadd_def)
  from this [OF sq sq, of b h] show ?thesis
    by (auto simp: fl_nonneg_def split: pyfloat.splits)
qed

subsection \<open>Numbers beyond the range of a double\<close>

lemma digits_value_nines_aux:
  "foldl (\<lambda>n c. 10 * n + digit_value c) acc (replicate k CHR ''9'') + 1 = (acc + 1) * 10 ^ k"
proof (induction k arbitrary: acc)
  case 0
  show ?case by simp
next
  case (Suc k)
  have d: "digit_value CHR ''9'' = 9" by (simp add: digit_value_def digits_def)
  show ?case using Suc [of "10 * acc + 9"] by (simp add: d algebra_simps)
qed

lemma digits_value_nines: "digits_value (replicate k CHR ''9'') = 10 ^ k - 1"
  using digits_value_nines_aux [of 0 k] by (simp add: digits_value_def)

lemma overflow_bound_309: "overflow_bound \<le> 10 ^ 309 - 1"
  by (simp add: overflow_bound_def)

text \<open>A number of 309 nines is beyond the range of a double.\<close>

lemma py_float_overflows: "py_float (replicate 309 CHR ''9'') = Inr PInf"
proof -
  have 9: "is_digit CHR ''9''" by (simp add: is_digit_def digits_def)
  have t: "takeWhile is_digit (replicate 309 CHR ''9'') = replicate 309 CHR ''9''"
    by (simp add: 9)
  have d: "dropWhile is_digit (replicate 309 CHR ''9'') = []"
    by (simp add: 9)
  have "rnd (real (10 ^ 309 - 1)) = PInf"
    using overflow_bound_309 by (simp add: rnd_def)
  then show ?thesis
    unfolding py_float_def Let_def t d by (simp add: digits_value_nines)
qed

section \<open>Evaluating the text processor\<close>

lemmas char_defs =
  ascii_upper_def ascii_lower_def digits_def lower_char_def lower_def
  is_digit_def is_alpha_def is_word_def is_space_def

lemmas re_defs =
  match_at_def group_def findall_def search_def re_sub_def word_pattern_def number_def
  dimension_pattern_def size_pattern_def simple_pattern_def strip_def

lemmas text_defs =
  extract_dimensions_def dimension_patterns_def py_float_def handle_special_cases_def
  circle_words_def convert_to_mm_def units_def digit_value_def digits_value_def
  detect_shape_type_def shape_patterns_def

lemmas build_defs =
  construct_shape_data_def construct_circle_data_def construct_rectangle_data_def
  construct_triangle_data_def construct_hexagon_data_def construct_polygon_data_def
  get_vertex_count_def add_metadata_def has_key_def dict_get_def

lemmas float_defs = fmul_def fadd_def fdiv_by_def fsqrt_def fmax_def fless_def rnd_small Let_def

lemma process_text_hello_world:
  "process_text ''hello world'' ''Auto-detect'' now = Inr (hello_world_record now)"
  using pi_less_4 pi_ge_two
  by (simp add: process_text_def normalize_text_def text_defs char_defs re_defs build_defs
        float_defs hello_world_record_def)

lemma normalize_labelled: "normalize_text ''radius: 25mm'' = ''radius: 25mm''"
  by (simp add: normalize_text_def char_defs re_defs)

lemma findall_labelled:
  "findall (dimension_pattern ''radius'' ''r'') [1, 2, 3] ''radius: 25mm'' = [[''radius'', ''25'', ''mm'']]"
  by (simp add: char_defs re_defs)

lemma extract_labelled: "extract_dimensions ''radius: 25mm'' = Inl (ValueError ''radius'')"
  by (simp add: extract_dimensions_def dimension_patterns_def findall_labelled [simplified]
        py_float_def is_digit_def digits_def)

text \<open>
  C1: process_text is claimed to return a record for every text and never to raise.
  On the text \<open>radius: 25mm\<close> the labelled radius pattern matches with the groups
  \<open>radius\<close>, \<open>25\<close>, \<open>mm\<close>; the loop converts the first group, the label, to a
  float, and the call ends in the processing failure that wraps that ValueError.
  (The other half of the claim holds: \<open>hello world\<close> gives the default circle of
  radius 25, see \<open>process_text_hello_world\<close>.)
\<close>

theorem process_text_raises_on_labelled_dimension:
  "process_text ''radius: 25mm'' ''Auto-detect'' now
     = Inl (TextProcessingFailed (ValueError ''radius''))"
  by (simp add: process_text_def normalize_labelled extract_labelled)

lemma normalize_circle_25: "normalize_text ''A circle with radius 25mm'' = ''a circle with radius 25mm''"
  by (simp add: normalize_text_def char_defs re_defs)

lemma detect_circle_25: "detect_shape_type ''a circle with radius 25mm'' ''Auto-detect'' = ''circle''"
  by (simp add: text_defs char_defs re_defs)

lemma extract_circle_25: "extract_dimensions ''a circle with radius 25mm'' = Inr [(''radius'', Fin 12.5)]"
  by (simp add: text_defs char_defs re_defs has_key_def float_defs)

lemma process_text_circle_25:
  "process_text ''A circle with radius 25mm'' ''Auto-detect'' now =
     Inr [(''type'', Str ''circle''), (''confidence'', Num 100), (''vertices'', Num 0),
          (''area'', Num (pi * 12.5 * 12.5)), (''perimeter'', Num (pi * 25)),
          (''center'', Pt 0 0), (''radius'', Num 12.5), (''diameter'', Num 25),
          (''timestamp'', Str now), (''source'', Str ''text_input'')]"
  using pi_less_4 pi_ge_two
  by (simp add: process_text_def normalize_circle_25 detect_circle_25 extract_circle_25 build_defs
        float_defs)

text \<open>
  C2: for the text \<open>A circle with radius 25mm\<close> the claim expects radius 25, diameter
  50 and area about 1963.5. No labelled pattern matches (there is no \<open>=\<close> or \<open>:\<close>
  after the label), so the bare \<open>25mm\<close> is taken by the rule for unlabelled
  measurements, which halves it for a circle: the record has radius 12.5, diameter
  25 and area \<open>\<pi>\<sqdot>12.5\<^sup>2\<close>, with confidence 100.
\<close>

theorem process_text_circle_radius_25mm:
  "process_text ''A circle with radius 25mm'' ''Auto-detect'' now =
     Inr [(''type'', Str ''circle''), (''confidence'', Num 100), (''vertices'', Num 0),
          (''area'', Num (pi * 12.5 * 12.5)), (''perimeter'', Num (pi * 25)),
          (''center'', Pt 0 0), (''radius'', Num 12.5), (''diameter'', Num 25),
          (''timestamp'', Str now), (''source'', Str ''text_input'')]"
  by (rule process_text_circle_25)

lemma normalize_rect_by: "normalize_text ''Rectangle 100mm by 50mm'' = ''rectangle 100mm by 50mm''"
  by (simp add: normalize_text_def char_defs re_defs)

lemma detect_rect_by: "detect_shape_type ''rectangle 100mm by 50mm'' ''Auto-detect'' = ''rectangle''"
  by (simp add: text_defs char_defs re_defs)

lemma size_pattern_rect_by: "findall size_pattern [1, 2] ''rectangle 100mm by 50mm'' = []"
  by (simp add: char_defs re_defs)

lemma extract_rect_by:
  "extract_dimensions ''rectangle 100mm by 50mm'' = Inr [(''width'', Fin 100), (''height'', Fin 100)]"
  by (simp add: text_defs char_defs re_defs has_key_def float_defs)

text \<open>
  C4: for the text \<open>Rectangle 100mm by 50mm\<close> the claim expects width 100, height 50
  and area 5000 through the \<open>A by B\<close> rule. That rule's pattern wants the word
  \<open>by\<close> right after the first number, and here the unit stands between them, so it
  finds nothing; the rule for unlabelled measurements then takes the first one,
  \<open>100mm\<close>, for both sides: width 100, height 100, area 10000.
\<close>

theorem process_text_rectangle_100mm_by_50mm:
  "findall size_pattern [1, 2] (normalize_text ''Rectangle 100mm by 50mm'') = []
   \<and> process_text ''Rectangle 100mm by 50mm'' ''Auto-detect'' now =
       Inr [(''type'', Str ''rectangle''), (''confidence'', Num 100), (''vertices'', Num 4),
            (''area'', Num 10000), (''perimeter'', Num 400),
            (''center'', Pt 0 0), (''width'', Num 100), (''height'', Num 100),
            (''timestamp'', Str now), (''source'', Str ''text_input'')]"
  by (simp add: process_text_def normalize_rect_by detect_rect_by extract_rect_by
        size_pattern_rect_by [simplified] build_defs float_defs)

section \<open>The sketch detectors and the precision level\<close>

lemma pi_ge_three: "3 \<le> pi"
  using sin_x_le_x [of "pi / 6"] sin_30 by simp

lemma lower_threshold:
  fixes x :: real
  shows "a + (real_of_int (p + 1)) * k < x \<Longrightarrow> 0 \<le> k \<Longrightarrow> a + real_of_int p * k < x"
  by (simp add: algebra_simps)

lemmas detector_defs =
  detect_circle_def detect_rectangle_def detect_triangle_def detect_hexagon_def
  detect_polygon_def area_ratio_def rect_center_def rect_width_def rect_height_def

text \<open>
  C3, as stated, fails: the triangle and hexagon tests accept a deviation below
  \<open>0.3 + p\<sqdot>0.04\<close> and \<open>0.2 + p\<sqdot>0.03\<close>, which grow with \<open>p\<close>. The thin triangle
  (ratio 0.1) is accepted at precision 3 and rejected at precision 2; the loose
  hexagon (ratio 0.62) is accepted at precision 2 and rejected at precision 1.
\<close>

theorem triangle_hexagon_not_stricter:
  "detect_triangle 3 thin_triangle 3 \<noteq> None \<and> detect_triangle 3 thin_triangle 2 = None
   \<and> detect_hexagon 6 loose_hexagon 2 \<noteq> None \<and> detect_hexagon 6 loose_hexagon 1 = None"
  by (simp add: detector_defs thin_triangle_def loose_hexagon_def)

text \<open>
  C3, amended: for every contour and every precision \<open>p\<close>, the circle and the
  rectangle test become stricter with \<open>p\<close> (whatever they accept at \<open>p + 1\<close> they
  accept at \<open>p\<close>), while the triangle and the hexagon test become more lenient
  (whatever they accept at \<open>p\<close> they accept at \<open>p + 1\<close>).
\<close>

theorem precision_thresholds_monotone:
  "(detect_circle n1 c (p + 1) \<noteq> None \<longrightarrow> detect_circle n1 c p \<noteq> None)
   \<and> (detect_rectangle n2 c (p + 1) \<noteq> None \<longrightarrow> detect_rectangle n2 c p \<noteq> None)
   \<and> (detect_triangle n3 c p \<noteq> None \<longrightarrow> detect_triangle n3 c (p + 1) \<noteq> None)
   \<and> (detect_hexagon n4 c p \<noteq> None \<longrightarrow> detect_hexagon n4 c (p + 1) \<noteq> None)"
proof (intro conjI impI)
  assume "detect_circle n1 c (p + 1) \<noteq> None"
  then show "detect_circle n1 c p \<noteq> None"
    using lower_threshold [of "0.7" p "0.02" "4 * pi * contourArea c / (arcLength c * arcLength c)"]
    by (simp add: detect_circle_def Let_def split: if_splits prod.splits)
next
  assume "detect_rectangle n2 c (p + 1) \<noteq> None"
  then show "detect_rectangle n2 c p \<noteq> None"
    by (auto simp: detect_rectangle_def Let_def add_divide_distrib split: if_splits)
next
  assume "detect_triangle n3 c p \<noteq> None"
  then show "detect_triangle n3 c (p + 1) \<noteq> None"
    by (auto simp: detect_triangle_def Let_def add_divide_distrib split: if_splits)
next
  assume "detect_hexagon n4 c p \<noteq> None"
  then show "detect_hexagon n4 c (p + 1) \<noteq> None"
    by (auto simp: detect_hexagon_def Let_def add_divide_distrib split: if_splits)
qed

theorem precision_thresholds_monotone_witness:
  "detect_circle 8 round_blob 2 \<noteq> None \<and> detect_circle 8 round_blob 1 \<noteq> None
   \<and> detect_rectangle 4 round_blob 2 \<noteq> None \<and> detect_rectangle 4 round_blob 1 \<noteq> None
   \<and> detect_triangle 3 round_blob 1 \<noteq> None \<and> detect_triangle 3 round_blob 2 \<noteq> None
   \<and> detect_hexagon 6 round_blob 1 \<noteq> None \<and> detect_hexagon 6 round_blob 2 \<noteq> None"
proof -
  have a: "detect_circle 8 round_blob (1 + 1) \<noteq> None"
    using pi_ge_three by (simp add: detect_circle_def round_blob_def)
  have b: "detect_rectangle 4 round_blob (1 + 1) \<noteq> None"
    by (simp add: detector_defs round_blob_def)
  have c: "detect_triangle 3 round_blob 1 \<noteq> None"
    by (simp add: detector_defs round_blob_def)
  have d: "detect_hexagon 6 round_blob 1 \<noteq> None"
    by (simp add: detector_defs round_blob_def)
  from precision_thresholds_monotone [of 8 round_blob 1 4 3 6] a b c d
  show ?thesis by simp
qed

section \<open>The hypothesis selector\<close>

lemma confidence_of_ok: "hypothesis_ok h \<Longrightarrow> confidence_of h = Inr (conf h)"
  by (auto simp: hypothesis_ok_def confidence_of_def conf_def num_field_def
           split: option.splits val.splits)

lemma type_of_ok: "hypothesis_ok h \<Longrightarrow> \<exists>v. map_of h ''type'' = Some v \<and> type_of h = Inr v"
  by (auto simp: hypothesis_ok_def type_of_def)

lemma of_type_with_type:
  "list_all hypothesis_ok hs \<Longrightarrow> of_type t hs = Inr (with_type t hs)"
proof (induction hs)
  case Nil
  show ?case by (simp add: with_type_def)
next
  case (Cons h hs)
  from Cons.prems have "hypothesis_ok h" by simp
  then obtain v where v: "map_of h ''type'' = Some v" "type_of h = Inr v"
    using type_of_ok by blast
  from Cons have ih: "of_type t hs = Inr (with_type t hs)" by simp
  show ?case using v ih by (simp add: with_type_def)
qed

text \<open>
  The loop invariant of \<open>max\<close>: the running best is the first maximum of the items
  read so far.
\<close>

lemma max_loop_first_max:
  "list_all hypothesis_ok xs \<Longrightarrow> first_max pre best
     \<Longrightarrow> \<exists>r. max_loop best (conf best) xs = Inr r \<and> first_max (pre @ xs) r"
proof (induction xs arbitrary: pre best)
  case Nil
  then show ?case by simp
next
  case (Cons x xs)
  from Cons.prems have okx: "hypothesis_ok x" and okxs: "list_all hypothesis_ok xs" by simp_all
  from Cons.prems(2) obtain ys zs where
    pre: "pre = ys @ best # zs" and
    lt: "\<forall>y\<in>set ys. conf y < conf best" and
    le: "\<forall>z\<in>set zs. conf z \<le> conf best"
    unfolding first_max_def by blast
  show ?case
  proof (cases "conf best < conf x")
    case True
    have "first_max (pre @ [x]) x"
      unfolding first_max_def
    proof (intro exI conjI)
      show "pre @ [x] = pre @ x # []" by simp
      show "\<forall>y\<in>set pre. conf y < conf x" using pre lt le True by auto
      show "\<forall>z\<in>set []. conf z \<le> conf x" by simp
    qed
    from Cons.IH [OF okxs this] True okx show ?thesis
      by (simp add: confidence_of_ok)
  next
    case False
    have "first_max (pre @ [x]) best"
      unfolding first_max_def
    proof (intro exI conjI)
      show "pre @ [x] = ys @ best # (zs @ [x])" using pre by simp
      show "\<forall>y\<in>set ys. conf y < conf best" by (rule lt)
      show "\<forall>z\<in>set (zs @ [x]). conf z \<le> conf best" using le False by auto
    qed
    from Cons.IH [OF okxs this] False okx show ?thesis
      by (simp add: confidence_of_ok)
  qed
qed

lemma max_by_confidence_first_max:
  assumes "list_all hypothesis_ok xs" and "xs \<noteq> []"
  shows "\<exists>r. max_by_confidence xs = Inr r \<and> first_max xs r"
proof -
  from assms obtain x rest where xs: "xs = x # rest" by (cases xs) auto
  with assms have okx: "hypothesis_ok x" and okr: "list_all hypothesis_ok rest" by simp_all
  have "first_max [x] x" unfolding first_max_def by (intro exI [of _ "[]"]) simp
  from max_loop_first_max [OF okr this] okx xs show ?thesis
    by (simp add: max_by_confidence_def confidence_of_ok)
qed

lemma with_type_ok: "list_all hypothesis_ok hs \<Longrightarrow> list_all hypothesis_ok (with_type t hs)"
  by (simp add: with_type_def list_all_iff)

lemma select_best_shape_cases:
  assumes ok: "list_all hypothesis_ok hs" and ne: "hs \<noteq> []"
  shows "\<exists>r. select_best_shape hs expected_shape = Inr r
           \<and> (if expected_shape \<noteq> ''Auto-detect'' \<and> with_type (lower expected_shape) hs \<noteq> []
              then first_max (with_type (lower expected_shape) hs) r
              else first_max hs r)"
proof (cases "expected_shape \<noteq> ''Auto-detect'' \<and> with_type (lower expected_shape) hs \<noteq> []")
  case True
  from max_by_confidence_first_max [OF with_type_ok [OF ok]] True
  obtain r where "max_by_confidence (with_type (lower expected_shape) hs) = Inr r"
    "first_max (with_type (lower expected_shape) hs) r" by blast
  with True ne ok show ?thesis
    by (simp add: select_best_shape_def of_type_with_type)
next
  case False
  from max_by_confidence_first_max [OF ok ne]
  obtain r where "max_by_confidence hs = Inr r" "first_max hs r" by blast
  with False ne ok show ?thesis
    by (auto simp: select_best_shape_def of_type_with_type)
qed

text \<open>
  C6: on an empty hypothesis list the selector returns the fallback circle (centre
  at the origin, radius 50, confidence 50, no vertices) and does not raise. On a
  non-empty list of readable hypotheses it does not raise either: with a hint other
  than \<open>Auto-detect\<close> and at least one hypothesis of the hinted type it returns the
  first maximum among the hypotheses of that type only, whatever the confidence of
  the others; in every other case it returns the first maximum of the whole list.
\<close>

theorem select_best_shape_spec:
  "select_best_shape [] expected_shape =
     Inr [(''type'', Str ''circle''), (''center'', Pt 0 0), (''radius'', Num 50),
          (''confidence'', Num 50), (''vertices'', Num 0), (''area'', Num 7854),
          (''perimeter'', Num 314)]
   \<and> (list_all hypothesis_ok hs \<and> hs \<noteq> [] \<longrightarrow>
        (\<exists>r. select_best_shape hs expected_shape = Inr r
           \<and> (if expected_shape \<noteq> ''Auto-detect'' \<and> with_type (lower expected_shape) hs \<noteq> []
              then first_max (with_type (lower expected_shape) hs) r
              else first_max hs r)))"
  using select_best_shape_cases [of hs expected_shape]
  by (simp add: select_best_shape_def fallback_circle_def)

text \<open>
  On the sample, the hint \<open>Rectangle\<close> selects the first of the two tied
  rectangles of confidence 70, although the circle has confidence 90; without a
  hint the circle is selected.
\<close>

theorem select_best_shape_spec_witness:
  "list_all hypothesis_ok sample_hypotheses \<and> sample_hypotheses \<noteq> []
   \<and> (\<exists>r. select_best_shape sample_hypotheses ''Rectangle'' = Inr r
          \<and> first_max (with_type ''rectangle'' sample_hypotheses) r)
   \<and> select_best_shape sample_hypotheses ''Rectangle''
        = Inr [(''type'', Str ''rectangle''), (''confidence'', Num 70), (''width'', Num 20)]
   \<and> select_best_shape sample_hypotheses ''Auto-detect''
        = Inr [(''type'', Str ''circle''), (''confidence'', Num 90), (''radius'', Num 40)]"
proof -
  have ok: "list_all hypothesis_ok sample_hypotheses"
    by (simp add: sample_hypotheses_def hypothesis_ok_def num_field_def)
  have ne: "sample_hypotheses \<noteq> []"
    by (simp add: sample_hypotheses_def)
  have lw: "lower ''Rectangle'' = ''rectangle''"
    by (simp add: char_defs)
  have wt: "with_type ''rectangle'' sample_hypotheses \<noteq> []"
    by (simp add: with_type_def sample_hypotheses_def)
  have ev1: "select_best_shape sample_hypotheses ''Rectangle''
        = Inr [(''type'', Str ''rectangle''), (''confidence'', Num 70), (''width'', Num 20)]"
    by (simp add: select_best_shape_def sample_hypotheses_def lw type_of_def
          confidence_of_def max_by_confidence_def)
  have ev2: "select_best_shape sample_hypotheses ''Auto-detect''
        = Inr [(''type'', Str ''circle''), (''confidence'', Num 90), (''radius'', Num 40)]"
    by (simp add: select_best_shape_def sample_hypotheses_def type_of_def
          confidence_of_def max_by_confidence_def)
  from select_best_shape_spec [of "''Rectangle''" sample_hypotheses] ok ne wt
  have "\<exists>r. select_best_shape sample_hypotheses ''Rectangle'' = Inr r
          \<and> first_max (with_type ''rectangle'' sample_hypotheses) r"
    by (simp add: lw)
  with ok ne ev1 ev2 show ?thesis by simp
qed

section \<open>The records of the text processor\<close>

lemma map_of_dict_set: "map_of (dict_set k v d) = (map_of d)(k \<mapsto> v)"
  by (induction d) (auto simp: fun_eq_iff)

lemma dict_get_cases: "dict_get d k dflt = dflt \<or> dict_get d k dflt \<in> snd ` set d"
  by (auto simp: dict_get_def split: option.splits dest!: map_of_SomeD intro: rev_image_eqI)

lemma dict_get_nonneg: "all_nonneg d \<Longrightarrow> fl_nonneg dflt \<Longrightarrow> fl_nonneg (dict_get d k dflt)"
  using dict_get_cases [of d k dflt] by (auto simp: all_nonneg_def list_all_iff)

lemma dict_get_finite: "all_finite d \<Longrightarrow> is_fin dflt \<Longrightarrow> is_fin (dict_get d k dflt)"
  using dict_get_cases [of d k dflt] by (auto simp: all_finite_def list_all_iff)

lemma fin_simps [simp]:
  "fl_nonneg (Fin a) = (0 \<le> a)"
  "is_fin (Fin 100)" "is_fin (Fin 75)" "is_fin (Fin 50)" "is_fin (Fin 25)"
  by (simp_all add: fl_nonneg_def is_fin_small)

text \<open>The record of each type, with its geometry \<open>R\<close>, \<open>D\<close>, \<open>W\<close>, \<open>H\<close>, \<open>S\<close>.\<close>

lemma construct_circle:
  "\<exists>R D. (all_nonneg dims \<longrightarrow> fl_nonneg R \<and> fl_nonneg D)
     \<and> construct_shape_data ''circle'' dims tx =
     [(''type'', Str ''circle''), (''confidence'', Num 85), (''vertices'', Num 0),
      (''area'', num (fmul (fmul (Fin pi) R) R)),
      (''perimeter'', num (fmul (Fin pi) D)),
      (''center'', Pt 0 0), (''radius'', num R), (''diameter'', num D)]"
proof -
  let ?r = "dict_get dims ''radius'' (Fin 25)"
  let ?d = "dict_get dims ''diameter'' (fmul ?r (Fin 2))"
  let ?R = "if has_key ''diameter'' dims then fdiv_by ?d 2 else ?r"
  let ?D = "if \<not> has_key ''diameter'' dims \<and> has_key ''radius'' dims then fmul ?R (Fin 2) else ?d"
  have "all_nonneg dims \<longrightarrow> fl_nonneg ?R \<and> fl_nonneg ?D"
    by (auto intro!: dict_get_nonneg fl_nonneg_fdiv_by fl_nonneg_fmul_pos)
  moreover have "construct_shape_data ''circle'' dims tx =
     [(''type'', Str ''circle''), (''confidence'', Num 85), (''vertices'', Num 0),
      (''area'', num (fmul (fmul (Fin pi) ?R) ?R)),
      (''perimeter'', num (fmul (Fin pi) ?D)),
      (''center'', Pt 0 0), (''radius'', num ?R), (''diameter'', num ?D)]"
    by (simp add: construct_shape_data_def construct_circle_data_def get_vertex_count_def
          Let_def dict_get_def [of "[_, _, _, _, _]"])
  ultimately show ?thesis by blast
qed

lemma construct_rectangle:
  "\<exists>W H. (all_nonneg dims \<longrightarrow> fl_nonneg W \<and> fl_nonneg H)
     \<and> (all_finite dims \<longrightarrow> is_fin W \<and> is_fin H)
     \<and> construct_shape_data ''rectangle'' dims tx =
     [(''type'', Str ''rectangle''), (''confidence'', Num 85), (''vertices'', Num 4),
      (''area'', num (fmul W H)), (''perimeter'', num (fmul (Fin 2) (fadd W H))),
      (''center'', Pt 0 0), (''width'', num W), (''height'', num H)]"
proof -
  let ?w = "dict_get dims ''width'' (Fin 100)"
  let ?h = "dict_get dims ''height'' (Fin 75)"
  let ?H = "if has_key ''width'' dims \<and> \<not> has_key ''height'' dims then ?w else ?h"
  let ?W = "if \<not> (has_key ''width'' dims \<and> \<not> has_key ''height'' dims)
               \<and> has_key ''height'' dims \<and> \<not> has_key ''width'' dims then ?h else ?w"
  have "all_nonneg dims \<longrightarrow> fl_nonneg ?W \<and> fl_nonneg ?H"
    by (auto intro!: dict_get_nonneg)
  moreover have "all_finite dims \<longrightarrow> is_fin ?W \<and> is_fin ?H"
    by (auto intro!: dict_get_finite)
  moreover have "construct_shape_data ''rectangle'' dims tx =
     [(''type'', Str ''rectangle''), (''confidence'', Num 85), (''vertices'', Num 4),
      (''area'', num (fmul ?W ?H)), (''perimeter'', num (fmul (Fin 2) (fadd ?W ?H))),
      (''center'', Pt 0 0), (''width'', num ?W), (''height'', num ?H)]"
    by (simp add: construct_shape_data_def construct_rectangle_data_def get_vertex_count_def
          Let_def dict_get_def [of "[_, _, _, _, _]"])
  ultimately show ?thesis by blast
qed

lemma construct_triangle:
  "\<exists>B H. (all_nonneg dims \<longrightarrow> fl_nonneg B \<and> fl_nonneg H)
     \<and> (all_finite dims \<longrightarrow> is_fin B \<and> is_fin H)
     \<and> construct_shape_data ''triangle'' dims tx =
     [(''type'', Str ''triangle''), (''confidence'', Num 85), (''vertices'', Num 3),
      (''area'', num (fmul (fmul (Fin 0.5) B) H)),
      (''perimeter'', num (fmul (Fin 3) (fsqrt (fadd (fmul B B) (fmul H H))))),
      (''center'', Pt 0 0), (''width'', num B), (''height'', num H)]"
proof -
  let ?B = "dict_get dims ''width'' (dict_get dims ''length'' (Fin 100))"
  let ?H = "dict_get dims ''height'' (Fin 75)"
  have "all_nonneg dims \<longrightarrow> fl_nonneg ?B \<and> fl_nonneg ?H"
    by (auto intro!: dict_get_nonneg)
  moreover have "all_finite dims \<longrightarrow> is_fin ?B \<and> is_fin ?H"
    by (auto intro!: dict_get_finite)
  moreover have "construct_shape_data ''triangle'' dims tx =
     [(''type'', Str ''triangle''), (''confidence'', Num 85), (''vertices'', Num 3),
      (''area'', num (fmul (fmul (Fin 0.5) ?B) ?H)),
      (''perimeter'', num (fmul (Fin 3) (fsqrt (fadd (fmul ?B ?B) (fmul ?H ?H))))),
      (''center'', Pt 0 0), (''width'', num ?B), (''height'', num ?H)]"
    by (simp add: construct_shape_data_def construct_triangle_data_def get_vertex_count_def
          Let_def dict_get_def [of "[_, _, _, _, _]"])
  ultimately show ?thesis by blast
qed

lemma construct_hexagon:
  "\<exists>S. (all_nonneg dims \<longrightarrow> fl_nonneg S)
     \<and> construct_shape_data ''hexagon'' dims tx =
     [(''type'', Str ''hexagon''), (''confidence'', Num 85), (''vertices'', Num 6),
      (''area'', num (fdiv_by (fmul (fmul (fmul (Fin 3) (Fin (sqrt 3))) S) S) 2)),
      (''perimeter'', num (fmul (Fin 6) S)),
      (''center'', Pt 0 0), (''side_length'', num S),
      (''width'', num (fmul (Fin 2) S)), (''height'', num (fmul (Fin (sqrt 3)) S))]"
proof -
  let ?S = "dict_get dims ''side'' (Fin 50)"
  have "all_nonneg dims \<longrightarrow> fl_nonneg ?S"
    by (auto intro!: dict_get_nonneg)
  moreover have "construct_shape_data ''hexagon'' dims tx =
     [(''type'', Str ''hexagon''), (''confidence'', Num 85), (''vertices'', Num 6),
      (''area'', num (fdiv_by (fmul (fmul (fmul (Fin 3) (Fin (sqrt 3))) ?S) ?S) 2)),
      (''perimeter'', num (fmul (Fin 6) ?S)),
      (''center'', Pt 0 0), (''side_length'', num ?S),
      (''width'', num (fmul (Fin 2) ?S)), (''height'', num (fmul (Fin (sqrt 3)) ?S))]"
    by (simp add: construct_shape_data_def construct_hexagon_data_def get_vertex_count_def
          Let_def dict_get_def [of "[_, _, _, _, _]"])
  ultimately show ?thesis by blast
qed

lemma construct_other:
  assumes "ty \<noteq> ''circle''" "ty \<noteq> ''rectangle''" "ty \<noteq> ''triangle''" "ty \<noteq> ''hexagon''"
  shows "\<exists>S W H. (all_nonneg dims \<longrightarrow> fl_nonneg S \<and> fl_nonneg W \<and> fl_nonneg H)
     \<and> (all_finite dims \<longrightarrow> is_fin W \<and> is_fin H)
     \<and> construct_shape_data ty dims tx =
     [(''type'', Str ty), (''confidence'', Num 85), (''vertices'', Num (get_vertex_count ty)),
      (''area'', num (fmul (fmul W H) (Fin 0.8))),
      (''perimeter'', num (fmul (Fin 8) S)),
      (''center'', Pt 0 0), (''side_length'', num S), (''width'', num W), (''height'', num H)]"
proof -
  let ?S = "dict_get dims ''side'' (Fin 50)"
  let ?W = "dict_get dims ''width'' (Fin 100)"
  let ?H = "dict_get dims ''height'' (Fin 100)"
  have "all_nonneg dims \<longrightarrow> fl_nonneg ?S \<and> fl_nonneg ?W \<and> fl_nonneg ?H"
    by (auto intro!: dict_get_nonneg)
  moreover have "all_finite dims \<longrightarrow> is_fin ?W \<and> is_fin ?H"
    by (auto intro!: dict_get_finite)
  moreover have "construct_shape_data ty dims tx =
     [(''type'', Str ty), (''confidence'', Num 85), (''vertices'', Num (get_vertex_count ty)),
      (''area'', num (fmul (fmul ?W ?H) (Fin 0.8))),
      (''perimeter'', num (fmul (Fin 8) ?S)),
      (''center'', Pt 0 0), (''side_length'', num ?S), (''width'', num ?W), (''height'', num ?H)]"
    using assms by (simp add: construct_shape_data_def construct_polygon_data_def Let_def)
  ultimately show ?thesis by blast
qed

lemma shape_type_cases:
  obtains "ty = ''circle''" | "ty = ''rectangle''" | "ty = ''triangle''" | "ty = ''hexagon''"
    | "ty \<noteq> ''circle''" "ty \<noteq> ''rectangle''" "ty \<noteq> ''triangle''" "ty \<noteq> ''hexagon''"
  by blast

lemma construct_length: "5 < length (construct_shape_data ty dims tx)"
proof (cases ty rule: shape_type_cases)
  case 1 then show ?thesis using construct_circle [of dims "tx"] by auto
next
  case 2 then show ?thesis using construct_rectangle [of dims "tx"] by auto
next
  case 3 then show ?thesis using construct_triangle [of dims "tx"] by auto
next
  case 4 then show ?thesis using construct_hexagon [of dims "tx"] by auto
next
  case 5 then show ?thesis using construct_other [of ty dims "tx"] by auto
qed

lemma construct_confidence: "map_of (construct_shape_data ty dims tx) ''confidence'' = Some (Num 85)"
proof (cases ty rule: shape_type_cases)
  case 1 then show ?thesis using construct_circle [of dims "tx"] by auto
next
  case 2 then show ?thesis using construct_rectangle [of dims "tx"] by auto
next
  case 3 then show ?thesis using construct_triangle [of dims "tx"] by auto
next
  case 4 then show ?thesis using construct_hexagon [of dims "tx"] by auto
next
  case 5 then show ?thesis using construct_other [of ty dims "tx"] by auto
qed

lemma construct_type: "map_of (construct_shape_data ty dims tx) ''type'' = Some (Str ty)"
proof (cases ty rule: shape_type_cases)
  case 1 then show ?thesis using construct_circle [of dims "tx"] by auto
next
  case 2 then show ?thesis using construct_rectangle [of dims "tx"] by auto
next
  case 3 then show ?thesis using construct_triangle [of dims "tx"] by auto
next
  case 4 then show ?thesis using construct_hexagon [of dims "tx"] by auto
next
  case 5 then show ?thesis using construct_other [of ty dims "tx"] by auto
qed

lemma add_metadata_boost:
  assumes "map_of sd ''confidence'' = Some (Num c0)"
  shows "\<exists>b. (if 5 < length sd then 5 else 0) \<le> b \<and> b \<le> 15 \<and>
     add_metadata sd tx now =
       Inr (dict_set ''source'' (Str ''text_input'')
             (dict_set ''timestamp'' (Str now)
               (dict_set ''confidence'' (Num (min 100 (c0 + b))) sd)))"
proof -
  define u where "u = list_ex (\<lambda>unit. contains unit tx) [''mm'', ''cm'', ''m'', ''in'', ''ft'']"
  define s where "s = list_ex (\<lambda>shape. contains shape tx)
                        [''circle'', ''rectangle'', ''triangle'', ''hexagon'']"
  define b :: real where
    "b = (if 5 < length sd then 5 else 0) + (if u then 5 else 0) + (if s then 5 else 0)"
  have "add_metadata sd tx now =
       Inr (dict_set ''source'' (Str ''text_input'')
             (dict_set ''timestamp'' (Str now)
               (dict_set ''confidence'' (Num (min 100 (c0 + b))) sd)))"
    unfolding add_metadata_def Let_def u_def [symmetric] s_def [symmetric]
    by (simp add: assms b_def)
  moreover have "(if 5 < length sd then 5 else 0) \<le> b" "b \<le> 15"
    by (simp_all add: b_def)
  ultimately show ?thesis by blast
qed

lemma add_metadata_construct:
  "\<exists>c. 90 \<le> c \<and> c \<le> 100 \<and>
     add_metadata (construct_shape_data ty dims tx) tx' now =
       Inr (dict_set ''source'' (Str ''text_input'')
             (dict_set ''timestamp'' (Str now)
               (dict_set ''confidence'' (Num c) (construct_shape_data ty dims tx))))"
proof -
  from add_metadata_boost [OF construct_confidence, of ty dims "tx" tx' now]
  obtain b where b: "5 \<le> b" "b \<le> 15"
    "add_metadata (construct_shape_data ty dims tx) tx' now =
       Inr (dict_set ''source'' (Str ''text_input'')
             (dict_set ''timestamp'' (Str now)
               (dict_set ''confidence'' (Num (min 100 (85 + b)))
                  (construct_shape_data ty dims tx))))"
    using construct_length [of ty dims "tx"] by auto
  have "90 \<le> min 100 (85 + b)" "min 100 (85 + b) \<le> 100" using b by simp_all
  with b(3) show ?thesis by blast
qed

lemma process_text_Inr:
  assumes "process_text text_input expected_shape now = Inr r"
  shows "\<exists>dims c. extract_dimensions (normalize_text text_input) = Inr dims
           \<and> 90 \<le> c \<and> c \<le> 100
           \<and> r = dict_set ''source'' (Str ''text_input'')
                   (dict_set ''timestamp'' (Str now)
                     (dict_set ''confidence'' (Num c)
                       (construct_shape_data
                          (detect_shape_type (normalize_text text_input) expected_shape)
                          dims (normalize_text text_input))))"
proof -
  from assms obtain dims where
    d: "extract_dimensions (normalize_text text_input) = Inr dims"
    by (auto simp: process_text_def Let_def split: sum.splits)
  from add_metadata_construct
    [of "detect_shape_type (normalize_text text_input) expected_shape" dims
        "normalize_text text_input" "normalize_text text_input" now]
  obtain c where c: "90 \<le> c" "c \<le> 100"
    "add_metadata (construct_shape_data
        (detect_shape_type (normalize_text text_input) expected_shape)
        dims (normalize_text text_input)) (normalize_text text_input) now =
       Inr (dict_set ''source'' (Str ''text_input'')
             (dict_set ''timestamp'' (Str now)
               (dict_set ''confidence'' (Num c) (construct_shape_data
        (detect_shape_type (normalize_text text_input) expected_shape)
        dims (normalize_text text_input)))))"
    by blast
  with assms d show ?thesis
    by (auto simp: process_text_def Let_def)
qed

text \<open>
  C10: every record that process_text returns has a confidence of at least 90. The
  record built for any shape type has more than five fields (eight or nine), so
  the first boost of \<open>_add_metadata\<close> is always added to the base of 85.
\<close>

theorem text_confidence_at_least_90:
  "5 < length (construct_shape_data shape_type dimensions text)
   \<and> (process_text text_input expected_shape now = Inr r \<longrightarrow>
        (\<exists>c. num_field r ''confidence'' = Some c \<and> 90 \<le> c))"
proof (intro conjI impI)
  show "5 < length (construct_shape_data shape_type dimensions text)"
    by (rule construct_length)
next
  assume "process_text text_input expected_shape now = Inr r"
  from process_text_Inr [OF this] show "\<exists>c. num_field r ''confidence'' = Some c \<and> 90 \<le> c"
    by (auto simp: num_field_def map_of_dict_set)
qed


theorem text_confidence_at_least_90_witness:
  "5 < length (construct_shape_data ''circle'' [] ''hello world'')
   \<and> process_text ''hello world'' ''Auto-detect'' ''2024-05-01T10:00:00''
        = Inr (hello_world_record ''2024-05-01T10:00:00'')
   \<and> (\<exists>c. num_field (hello_world_record ''2024-05-01T10:00:00'') ''confidence'' = Some c
          \<and> 90 \<le> c)"
  using text_confidence_at_least_90
    [of "''circle''" "[]" "''hello world''" "''hello world''" "''Auto-detect''"
        "''2024-05-01T10:00:00''" "hello_world_record ''2024-05-01T10:00:00''"]
    process_text_hello_world [of "''2024-05-01T10:00:00''"]
  by simp

lemma filter_dict_set_same:
  "filter (\<lambda>kv. fst kv \<noteq> k) (dict_set k v d) = filter (\<lambda>kv. fst kv \<noteq> k) d"
  by (induction d) auto

lemma filter_dict_set_other:
  "k' \<noteq> k \<Longrightarrow> filter (\<lambda>kv. fst kv \<noteq> k) (dict_set k' v d)
                 = dict_set k' v (filter (\<lambda>kv. fst kv \<noteq> k) d)"
  by (induction d) auto

lemma add_metadata_clock:
  "map_sum id without_timestamp (add_metadata sd txt now1)
     = map_sum id without_timestamp (add_metadata sd txt now2)"
  by (simp add: add_metadata_def Let_def without_timestamp_def filter_dict_set_same
        filter_dict_set_other split: option.splits val.splits)

text \<open>
  C9: process_text is a function of the text, the expected-shape argument and the
  clock reading only, and the clock reading reaches nothing but the timestamp
  field: two calls on the same text and argument at different times both fail with
  the same error, or return records that agree on every field but the timestamp.
\<close>

theorem process_text_deterministic:
  "map_sum id without_timestamp (process_text text_input expected_shape now1)
     = map_sum id without_timestamp (process_text text_input expected_shape now2)"
proof (cases "extract_dimensions (normalize_text text_input)")
  case (Inl e)
  then show ?thesis by (simp add: process_text_def Let_def)
next
  case (Inr dims)
  from add_metadata_clock
    [of "construct_shape_data (detect_shape_type (normalize_text text_input) expected_shape)
           dims (normalize_text text_input)" "normalize_text text_input" now1 now2]
  show ?thesis using Inr
    by (auto simp: process_text_def Let_def split: sum.splits)
qed

theorem process_text_deterministic_witness:
  "map_sum id without_timestamp
     (process_text ''A circle with radius 25mm'' ''Auto-detect'' ''2024-05-01T10:00:00'')
   = map_sum id without_timestamp
     (process_text ''A circle with radius 25mm'' ''Auto-detect'' ''2025-01-31T23:59:59'')"
  by (rule process_text_deterministic)


subsection \<open>The extracted dimensions\<close>










subsection \<open>Area and perimeter of a built record\<close>








subsection \<open>Recomputing area and perimeter\<close>

lemma text_recomputed:
  assumes "process_text text_input expected_shape now = Inr r" and "type_ok r"
    and "stored r = Some (a, q)"
  shows "recomputed r = Some (a, q)"
proof -
  let ?ty = "detect_shape_type (normalize_text text_input) expected_shape"
  let ?tx = "normalize_text text_input"
  from process_text_Inr [OF assms(1)] obtain dims c where
    r: "r = dict_set ''source'' (Str ''text_input'')
                   (dict_set ''timestamp'' (Str now)
                     (dict_set ''confidence'' (Num c)
                       (construct_shape_data ?ty dims ?tx)))"
    by blast
  from assms(2) have "?ty \<in> set shape_types"
    unfolding r by (simp add: type_ok_def str_field_def map_of_dict_set construct_type)
  then consider "?ty = ''circle''" | "?ty = ''rectangle''" | "?ty = ''triangle''"
    | "?ty = ''hexagon''" | "?ty = ''polygon''"
    by (auto simp: shape_types_def)
  then show ?thesis
  proof cases
    case 1
    from construct_circle [of dims ?tx] obtain R D where
      sd: "construct_shape_data ''circle'' dims ?tx =
     [(''type'', Str ''circle''), (''confidence'', Num 85), (''vertices'', Num 0),
      (''area'', num (fmul (fmul (Fin pi) R) R)),
      (''perimeter'', num (fmul (Fin pi) D)),
      (''center'', Pt 0 0), (''radius'', num R), (''diameter'', num D)]" by blast
    from assms(3) have "fmul (fmul (Fin pi) R) R = Fin a" "fmul (Fin pi) D = Fin q"
      unfolding r 1 sd
      by (auto simp: stored_def num_field_def map_of_dict_set num_Num
               split: option.splits val.splits)
    then obtain x d where "R = Fin x" "D = Fin d" "a = pi * x * x" "q = pi * d"
      by (auto dest!: fmul_Fin)
    then show ?thesis unfolding r 1 sd
      by (simp add: recomputed_def num_field_def str_field_def map_of_dict_set power2_eq_square)
  next
    case 2
    from construct_rectangle [of dims ?tx] obtain W H where
      sd: "construct_shape_data ''rectangle'' dims ?tx =
     [(''type'', Str ''rectangle''), (''confidence'', Num 85), (''vertices'', Num 4),
      (''area'', num (fmul W H)), (''perimeter'', num (fmul (Fin 2) (fadd W H))),
      (''center'', Pt 0 0), (''width'', num W), (''height'', num H)]" by blast
    from assms(3) have "fmul W H = Fin a" "fmul (Fin 2) (fadd W H) = Fin q"
      unfolding r 2 sd
      by (auto simp: stored_def num_field_def map_of_dict_set num_Num
               split: option.splits val.splits)
    then obtain w h where "W = Fin w" "H = Fin h" "a = w * h" "q = 2 * (w + h)"
      by (auto dest!: fmul_Fin fadd_Fin)
    then show ?thesis unfolding r 2 sd
      by (simp add: recomputed_def num_field_def str_field_def map_of_dict_set)
  next
    case 3
    from construct_triangle [of dims ?tx] obtain B H where
      sd: "construct_shape_data ''triangle'' dims ?tx =
     [(''type'', Str ''triangle''), (''confidence'', Num 85), (''vertices'', Num 3),
      (''area'', num (fmul (fmul (Fin 0.5) B) H)),
      (''perimeter'', num (fmul (Fin 3) (fsqrt (fadd (fmul B B) (fmul H H))))),
      (''center'', Pt 0 0), (''width'', num B), (''height'', num H)]" by blast
    from assms(3) have "fmul (fmul (Fin 0.5) B) H = Fin a"
      "fmul (Fin 3) (fsqrt (fadd (fmul B B) (fmul H H))) = Fin q"
      unfolding r 3 sd
      by (auto simp: stored_def num_field_def map_of_dict_set num_Num
               split: option.splits val.splits)
    then obtain b h where "B = Fin b" "H = Fin h" "a = 0.5 * b * h"
      "q = 3 * sqrt (b * b + h * h)"
      by (auto dest!: fmul_Fin fadd_Fin fsqrt_Fin)
    then show ?thesis unfolding r 3 sd
      by (simp add: recomputed_def num_field_def str_field_def map_of_dict_set power2_eq_square)
  next
    case 4
    from construct_hexagon [of dims ?tx] obtain S where
      sd: "construct_shape_data ''hexagon'' dims ?tx =
     [(''type'', Str ''hexagon''), (''confidence'', Num 85), (''vertices'', Num 6),
      (''area'', num (fdiv_by (fmul (fmul (fmul (Fin 3) (Fin (sqrt 3))) S) S) 2)),
      (''perimeter'', num (fmul (Fin 6) S)),
      (''center'', Pt 0 0), (''side_length'', num S),
      (''width'', num (fmul (Fin 2) S)), (''height'', num (fmul (Fin (sqrt 3)) S))]" by blast
    from assms(3) have "fdiv_by (fmul (fmul (fmul (Fin 3) (Fin (sqrt 3))) S) S) 2 = Fin a"
      "fmul (Fin 6) S = Fin q"
      unfolding r 4 sd
      by (auto simp: stored_def num_field_def map_of_dict_set num_Num
               split: option.splits val.splits)
    then obtain s where "S = Fin s" "a = 3 * sqrt 3 * s * s / 2" "q = 6 * s"
      by (auto dest!: fmul_Fin fdiv_by_Fin)
    then show ?thesis unfolding r 4 sd
      by (simp add: recomputed_def num_field_def str_field_def map_of_dict_set power2_eq_square)
  next
    case 5
    from construct_other [of ?ty dims ?tx] 5 obtain S W H where
      sd: "construct_shape_data ''polygon'' dims ?tx =
     [(''type'', Str ''polygon''), (''confidence'', Num 85),
      (''vertices'', Num (get_vertex_count ''polygon'')),
      (''area'', num (fmul (fmul W H) (Fin 0.8))),
      (''perimeter'', num (fmul (Fin 8) S)),
      (''center'', Pt 0 0), (''side_length'', num S), (''width'', num W), (''height'', num H)]"
      by auto
    from assms(3) have "fmul (fmul W H) (Fin 0.8) = Fin a" "fmul (Fin 8) S = Fin q"
      unfolding r 5 sd
      by (auto simp: stored_def num_field_def map_of_dict_set num_Num
               split: option.splits val.splits)
    then obtain s w h where "S = Fin s" "W = Fin w" "H = Fin h" "a = w * h * 0.8" "q = 8 * s"
      by (auto dest!: fmul_Fin)
    then show ?thesis unfolding r 5 sd
      by (simp add: recomputed_def num_field_def str_field_def map_of_dict_set)
  qed
qed

lemma text_circle_vertices:
  assumes "process_text text_input expected_shape now = Inr r"
    and "str_field r ''type'' = Some ''circle''"
  shows "num_field r ''vertices'' = Some 0"
proof -
  let ?ty = "detect_shape_type (normalize_text text_input) expected_shape"
  from process_text_Inr [OF assms(1)] obtain dims c where
    r: "r = dict_set ''source'' (Str ''text_input'')
                   (dict_set ''timestamp'' (Str now)
                     (dict_set ''confidence'' (Num c)
                       (construct_shape_data ?ty dims (normalize_text text_input))))"
    by blast
  from assms(2) have "?ty = ''circle''"
    unfolding r by (simp add: str_field_def map_of_dict_set construct_type)
  with construct_circle [of dims "normalize_text text_input"] show ?thesis unfolding r
    by (auto simp: num_field_def map_of_dict_set)
qed

section \<open>The records of the sketch processor\<close>













lemma first_max_member: "first_max xs r \<Longrightarrow> r \<in> set xs"
  by (auto simp: first_max_def)

lemma select_best_shape_member:
  assumes "list_all hypothesis_ok hs"
  shows "\<exists>r. select_best_shape hs e = Inr r \<and> (r = fallback_circle \<or> r \<in> set hs)"
proof (cases "hs = []")
  case True
  then show ?thesis by (simp add: select_best_shape_def)
next
  case False
  from select_best_shape_cases [OF assms False, of e] obtain r where
    r: "select_best_shape hs e = Inr r"
     "(if e \<noteq> ''Auto-detect'' \<and> with_type (lower e) hs \<noteq> []
       then first_max (with_type (lower e) hs) r else first_max hs r)" by blast
  then have "r \<in> set hs"
    by (auto simp: with_type_def dest!: first_max_member split: if_splits)
  with r(1) show ?thesis by blast
qed




lemma process_sketch_returns:
  assumes "p \<noteq> 0" "list_all hypothesis_ok (detect_shapes cs p)"
  shows "\<exists>r. process_sketch (Some cs) e p now = Inr r"
  using select_best_shape_member [OF assms(2), of e] assms(1)
  by (auto simp: process_sketch_def enhance_shape_data_def Let_def)

subsection \<open>Two sketches evaluated\<close>

lemma detect_shapes_drawn_circle:
  "detect_shapes [drawn_circle] 7 =
     [[(''type'', Str ''circle''), (''center'', Pt 100 100), (''radius'', Num 50.5),
       (''confidence'', Num (min 100 (4 * pi * 7800 / (330 * 330) * 100))),
       (''vertices'', Num 8), (''area'', Num 7800), (''perimeter'', Num 330),
       (''contour'', Contour drawn_circle), (''approx_contour'', Approx 8)],
      [(''type'', Str ''polygon''), (''center'', Pt 100.5 100.5), (''width'', Num 101),
       (''height'', Num 101), (''confidence'', Num (7800 / 10201 * 100)),
       (''vertices'', Num 8), (''area'', Num 7800), (''perimeter'', Num 330),
       (''contour'', Contour drawn_circle), (''approx_contour'', Approx 8)]]"
proof -
  have c: "detect_circle 8 drawn_circle 7 =
     Some [(''type'', Str ''circle''), (''center'', Pt 100 100), (''radius'', Num 50.5),
       (''confidence'', Num (min 100 (4 * pi * 7800 / (330 * 330) * 100))),
       (''vertices'', Num 8), (''area'', Num 7800), (''perimeter'', Num 330)]"
    using pi_ge_three by (simp add: detect_circle_def drawn_circle_def)
  have r: "detect_rectangle 8 drawn_circle 7 = None"
    by (simp add: detect_rectangle_def)
  have t: "detect_triangle 8 drawn_circle 7 = None"
    by (simp add: detect_triangle_def)
  have h: "detect_hexagon 8 drawn_circle 7 = None"
    by (simp add: detect_hexagon_def)
  have p: "detect_polygon 8 drawn_circle 7 =
     Some [(''type'', Str ''polygon''), (''center'', Pt 100.5 100.5), (''width'', Num 101),
       (''height'', Num 101), (''confidence'', Num (7800 / 10201 * 100)),
       (''vertices'', Num 8), (''area'', Num 7800), (''perimeter'', Num 330)]"
    by (simp add: detector_defs drawn_circle_def)
  have a: "approx_len drawn_circle = 8" "700 < contourArea drawn_circle"
    by (simp_all add: drawn_circle_def)
  show ?thesis
    by (simp add: detect_shapes_def shape_templates_def a c r t h p)
qed

lemma process_sketch_drawn_circle:
  "process_sketch (Some [drawn_circle]) ''Auto-detect'' 7 now = Inr (drawn_circle_record now)"
proof -
  have "\<not> min 100 (4 * pi * 7800 / (330 * 330) * 100) < 7800 / 10201 * 100"
    using pi_ge_three by (simp add: min_def)
  then show ?thesis
    by (simp add: process_sketch_def detect_shapes_drawn_circle select_best_shape_def
          max_by_confidence_def confidence_of_def enhance_shape_data_def
          drawn_circle_record_def)
qed

lemma detect_shapes_drawn_rectangle:
  "detect_shapes [drawn_rectangle] 7 =
     [[(''type'', Str ''rectangle''), (''center'', Pt 60 60), (''width'', Num 100),
       (''height'', Num 100), (''confidence'', Num 85), (''vertices'', Num 4),
       (''area'', Num 8500), (''perimeter'', Num 440),
       (''contour'', Contour drawn_rectangle), (''approx_contour'', Approx 4)]]"
proof -
  have c: "detect_circle 4 drawn_rectangle 7 = None"
    using pi_less_4 by (simp add: detect_circle_def drawn_rectangle_def)
  have r: "detect_rectangle 4 drawn_rectangle 7 =
     Some [(''type'', Str ''rectangle''), (''center'', Pt 60 60), (''width'', Num 100),
       (''height'', Num 100), (''confidence'', Num 85), (''vertices'', Num 4),
       (''area'', Num 8500), (''perimeter'', Num 440)]"
    by (simp add: detector_defs drawn_rectangle_def)
  have t: "detect_triangle 4 drawn_rectangle 7 = None"
    by (simp add: detect_triangle_def)
  have h: "detect_hexagon 4 drawn_rectangle 7 = None"
    by (simp add: detect_hexagon_def)
  have p: "detect_polygon 4 drawn_rectangle 7 = None"
    by (simp add: detect_polygon_def)
  have a: "approx_len drawn_rectangle = 4" "700 < contourArea drawn_rectangle"
    by (simp_all add: drawn_rectangle_def)
  show ?thesis
    by (simp add: detect_shapes_def shape_templates_def a c r t h p)
qed

lemma process_sketch_drawn_rectangle:
  "process_sketch (Some [drawn_rectangle]) ''Auto-detect'' 7 now = Inr (drawn_rectangle_record now)"
  by (simp add: process_sketch_def detect_shapes_drawn_rectangle select_best_shape_def
        max_by_confidence_def confidence_of_def enhance_shape_data_def
        drawn_rectangle_record_def)

section \<open>Both pipelines\<close>




text \<open>
  C5, as stated, fails for the sketch processor: its records store the measured
  contour area and arc length next to the bounding box. The drawn rectangle gives
  a record with width 100, height 100, area 8500 and perimeter 440, where the
  rectangle formulas give 10000 and 400.
\<close>

theorem sketch_rectangle_not_recomputed:
  "process_sketch (Some [drawn_rectangle]) ''Auto-detect'' 7 ''2024-05-01T10:00:00''
     = Inr (drawn_rectangle_record ''2024-05-01T10:00:00'')
   \<and> stored (drawn_rectangle_record ''2024-05-01T10:00:00'') = Some (8500, 440)
   \<and> recomputed (drawn_rectangle_record ''2024-05-01T10:00:00'') = Some (10000, 400)"
  by (simp add: process_sketch_drawn_rectangle)
     (simp add: drawn_rectangle_record_def stored_def recomputed_def num_field_def str_field_def)

text \<open>
  C5, amended: for every record the text processor returns with one of the five
  types and with a stored area and perimeter that are finite numbers, the area and
  the perimeter recomputed from the record's own geometry fields by the formulas
  of its type are the stored ones (exactly, rounding inside the float range left
  aside). A record whose stored area or perimeter is an infinity or \<open>nan\<close>, which
  takes a number beyond the range of a double in the text, is not covered
  (subsection \<open>Beyond the float range\<close>).
\<close>

theorem text_area_perimeter_consistent:
  "process_text text_input expected_shape now = Inr r \<and> type_ok r \<and> stored r = Some (a, q)
     \<longrightarrow> recomputed r = Some (a, q)"
  using text_recomputed by blast

theorem text_area_perimeter_consistent_witness:
  "process_text ''A circle with radius 25mm'' ''Auto-detect'' ''2024-05-01T10:00:00''
     = Inr (circle_25mm_record ''2024-05-01T10:00:00'')
   \<and> type_ok (circle_25mm_record ''2024-05-01T10:00:00'')
   \<and> stored (circle_25mm_record ''2024-05-01T10:00:00'') = Some (pi * 12.5 * 12.5, pi * 25)
   \<and> recomputed (circle_25mm_record ''2024-05-01T10:00:00'')
       = Some (pi * 12.5 * 12.5, pi * 25)"
proof -
  have a: "process_text ''A circle with radius 25mm'' ''Auto-detect'' ''2024-05-01T10:00:00''
     = Inr (circle_25mm_record ''2024-05-01T10:00:00'')"
    by (simp add: process_text_circle_25 circle_25mm_record_def)
  have b: "type_ok (circle_25mm_record ''2024-05-01T10:00:00'')"
    by (simp add: circle_25mm_record_def type_ok_def str_field_def shape_types_def)
  have c: "stored (circle_25mm_record ''2024-05-01T10:00:00'')
             = Some (pi * 12.5 * 12.5, pi * 25)"
    by (simp add: circle_25mm_record_def stored_def num_field_def)
  from text_area_perimeter_consistent
    [of "''A circle with radius 25mm''" "''Auto-detect''" "''2024-05-01T10:00:00''"
        "circle_25mm_record ''2024-05-01T10:00:00''" "pi * 12.5 * 12.5" "pi * 25"] a b c
  show ?thesis by simp
qed

text \<open>
  C8: a circle record is claimed to have 0 vertices whatever produced it. That
  holds for the text processor (\<open>text_circle_vertices\<close>) and for the fallback
  record, but the circle detector stores \<open>len(approx)\<close>: the drawn circle, whose
  polygon approximation has eight corners, comes back as a circle with 8 vertices.
\<close>

theorem sketch_circle_vertices:
  "process_sketch (Some [drawn_circle]) ''Auto-detect'' 7 now = Inr (drawn_circle_record now)
   \<and> str_field (drawn_circle_record now) ''type'' = Some ''circle''
   \<and> num_field (drawn_circle_record now) ''vertices'' = Some 8"
  by (simp add: process_sketch_drawn_circle)
     (simp add: drawn_circle_record_def num_field_def str_field_def)

subsection \<open>Beyond the float range\<close>

text \<open>
  Where the hypotheses on finite numbers come from. The rule for \<open>A by B\<close> stores
  both numbers as they are read; a first number of 309 nines is the positive
  infinity, and with a second number 0 the rectangle's area, infinity times zero,
  is \<open>nan\<close>, of which \<open>area >= 0\<close> is false.
\<close>

lemma size_match_overflow:
  "\<not> circle_words t \<Longrightarrow>
   size_matches_loop t [[replicate 309 CHR ''9'', ''0'']] []
     = Inr [(''width'', PInf), (''height'', Fin 0)]"
proof -
  have z: "py_float ''0'' = Inr (Fin 0)"
    by (simp add: py_float_def is_digit_def digits_def digits_value_def digit_value_def
          rnd_small)
  assume "\<not> circle_words t"
  then show ?thesis
    by (simp add: py_float_overflows z has_key_def)
qed

lemma rectangle_area_nan:
  "construct_shape_data ''rectangle'' [(''width'', PInf), (''height'', Fin 0)] tx =
     [(''type'', Str ''rectangle''), (''confidence'', Num 85), (''vertices'', Num 4),
      (''area'', NotANumber), (''perimeter'', PosInf),
      (''center'', Pt 0 0), (''width'', PosInf), (''height'', Num 0)]
   \<and> \<not> field_nonneg
         (construct_shape_data ''rectangle'' [(''width'', PInf), (''height'', Fin 0)] tx)
         ''area''"
  by (simp add: build_defs float_defs field_nonneg_def nonneg_val_def)

text \<open>Such a record has no finite pair of area and perimeter to compare with.\<close>

lemma rectangle_nan_not_stored:
  "stored (construct_shape_data ''rectangle'' [(''width'', PInf), (''height'', Fin 0)] tx) = None"
  by (simp add: build_defs float_defs stored_def num_field_def)

end
